theory Spec2Isabelle
  imports Main
begin

section \<open>Strings\<close>

text \<open>
  Python strings are modelled as \<^typ>\<open>string\<close>: a character stands for the Unicode code
  point of its number, so the strings of the model are the texts of code points below 256
  (ASCII and the Latin-1 supplement). On these, \<open>str.lower\<close> works character by
  character: it maps the capital letters \<open>A\<close> to \<open>Z\<close> and U+00C0 to U+00DE (without the
  multiplication sign U+00D7) to the small letters 32 code points above them and leaves
  every other character as it is.
\<close>

definition upper_letters :: string where
  "upper_letters = ''ABCDEFGHIJKLMNOPQRSTUVWXYZ'' @ [
      CHR 0xC0, CHR 0xC1, CHR 0xC2, CHR 0xC3, CHR 0xC4, CHR 0xC5, CHR 0xC6, CHR 0xC7,
      CHR 0xC8, CHR 0xC9, CHR 0xCA, CHR 0xCB, CHR 0xCC, CHR 0xCD, CHR 0xCE, CHR 0xCF,
      CHR 0xD0, CHR 0xD1, CHR 0xD2, CHR 0xD3, CHR 0xD4, CHR 0xD5, CHR 0xD6, CHR 0xD8,
      CHR 0xD9, CHR 0xDA, CHR 0xDB, CHR 0xDC, CHR 0xDD, CHR 0xDE]"

definition lower_letters :: string where
  "lower_letters = ''abcdefghijklmnopqrstuvwxyz'' @ [
      CHR 0xE0, CHR 0xE1, CHR 0xE2, CHR 0xE3, CHR 0xE4, CHR 0xE5, CHR 0xE6, CHR 0xE7,
      CHR 0xE8, CHR 0xE9, CHR 0xEA, CHR 0xEB, CHR 0xEC, CHR 0xED, CHR 0xEE, CHR 0xEF,
      CHR 0xF0, CHR 0xF1, CHR 0xF2, CHR 0xF3, CHR 0xF4, CHR 0xF5, CHR 0xF6, CHR 0xF8,
      CHR 0xF9, CHR 0xFA, CHR 0xFB, CHR 0xFC, CHR 0xFD, CHR 0xFE]"

text \<open>The pairs of a capital letter and its small letter.\<close>

definition letter_pairs :: "(char \<times> char) list" where
  "letter_pairs = zip upper_letters lower_letters"

definition lower_char :: "char \<Rightarrow> char" where
  "lower_char c = (case map_of letter_pairs c of Some d \<Rightarrow> d | None \<Rightarrow> c)"

text \<open>\<open>s.lower()\<close>\<close>

definition lower :: "string \<Rightarrow> string" where
  "lower s = map lower_char s"

text \<open>
  The characters \<open>str.isspace\<close> accepts below code point 256: 9 to 13, 28 to 31, the
  blank, U+0085 and U+00A0.
\<close>

definition is_space :: "char \<Rightarrow> bool" where
  "is_space c = (c \<in> set [CHR 0x09, CHR 0x0A, CHR 0x0B, CHR 0x0C, CHR 0x0D,
                           CHR 0x1C, CHR 0x1D, CHR 0x1E, CHR 0x1F, CHR 0x20,
                           CHR 0x85, CHR 0xA0])"

text \<open>\<open>s.strip()\<close>\<close>

definition strip :: "string \<Rightarrow> string" where
  "strip s = rev (dropWhile is_space (rev (dropWhile is_space s)))"

text \<open>\<open>sep.join(xs)\<close>\<close>

fun str_join :: "string \<Rightarrow> string list \<Rightarrow> string" where
  "str_join sep [] = []"
| "str_join sep [x] = x"
| "str_join sep (x # y # ys) = x @ sep @ str_join sep (y # ys)"

text \<open>\<open>sub in s\<close> for strings: \<open>sub\<close> occurs in \<open>s\<close> as a contiguous piece.\<close>

fun starts_with :: "string \<Rightarrow> string \<Rightarrow> bool" where
  "starts_with s [] = True"
| "starts_with [] (c # cs) = False"
| "starts_with (d # ds) (c # cs) = (d = c \<and> starts_with ds cs)"

fun contains :: "string \<Rightarrow> string \<Rightarrow> bool" where
  "contains [] sub = (sub = [])"
| "contains (d # ds) sub = (starts_with (d # ds) sub \<or> contains ds sub)"

text \<open>\<open>s.endswith(suffix)\<close>\<close>

definition ends_with :: "string \<Rightarrow> string \<Rightarrow> bool" where
  "ends_with s suffix = starts_with (rev s) (rev suffix)"

text \<open>\<open>'%d' % n\<close> and \<open>'%s' % n\<close> for an integer: its decimal numeral.\<close>

definition digit_char :: "nat \<Rightarrow> char" where
  "digit_char d = ''0123456789'' ! d"

fun nat_digits :: "nat \<Rightarrow> string" where
  "nat_digits n = (if n < 10 then [digit_char n] else nat_digits (n div 10) @ [digit_char (n mod 10)])"

declare nat_digits.simps [simp del]

definition str_int :: "int \<Rightarrow> string" where
  "str_int i = (if i < 0 then CHR ''-'' # nat_digits (nat (- i)) else nat_digits (nat i))"

text \<open>\<open>'%s' % x\<close> for \<open>x\<close> a string or \<open>None\<close>.\<close>

definition str_opt :: "string option \<Rightarrow> string" where
  "str_opt x = (case x of None \<Rightarrow> ''None'' | Some s \<Rightarrow> s)"

text \<open>The truth value Python gives a string or an integer that may be \<open>None\<close>.\<close>

definition truthy :: "string option \<Rightarrow> bool" where
  "truthy x = (case x of None \<Rightarrow> False | Some s \<Rightarrow> s \<noteq> [])"

definition truthy_int :: "int option \<Rightarrow> bool" where
  "truthy_int x = (case x of None \<Rightarrow> False | Some n \<Rightarrow> n \<noteq> 0)"

section \<open>Exceptions, events and the backend\<close>

text \<open>
  The exceptions the program distinguishes: \<open>ServerError\<close> (caught around
  \<open>convert_query\<close>), \<open>KeyboardInterrupt\<close> (caught around the whole search) and every
  other exception class, which nothing catches.
\<close>

datatype exn = ServerError | KeyboardInterrupt | OtherError string

text \<open>How a run, or a part of it, stops early: \<open>sys.exit(n)\<close> or an exception.\<close>

datatype stop = SystemExit nat | Raised exn

text \<open>
  A record of the on-premises backend (\<open>proc.hostname\<close>, \<open>proc.username\<close>, \<open>proc.path\<close>,
  \<open>proc.cmdline\<close>) and of the cloud backend, whose fields are read with \<open>proc.get\<close>
  and may be absent.
\<close>

record r_process =
  proc_hostname :: string
  proc_username :: string
  proc_path :: string
  proc_cmdline :: string

record th_process =
  device_name :: "string option"
  process_username :: "string option"
  process_name :: "string option"
  process_cmdline :: "string option"

text \<open>
  Iterating \<open>cb_conn.select(...).where(query)\<close>: the records the backend yields, in
  order, and then either the end of the sequence (\<open>None\<close>) or the exception raised
  while the next record was awaited.
\<close>

type_synonym 'p cursor = "'p list \<times> exn option"

text \<open>
  The connection object. Its class decides the branch of \<open>process_search\<close>; it carries
  its \<open>select\<close> method and, for the cloud backend, \<open>convert_query\<close>. What the backend
  answers is a function of the text of the query.
\<close>

datatype cb_conn =
  CbEnterpriseResponseAPI "string \<Rightarrow> r_process cursor"
| CbThreatHunterAPI "string \<Rightarrow> th_process cursor" "string \<Rightarrow> exn + string"

type_synonym proc_tuple = "string \<times> string \<times> string \<times> string"

text \<open>
  What a run does, in order. \<open>Log\<close> and \<open>Err\<close> hold the text written to stdout and
  stderr. \<open>WriteRows\<close> holds the rows written for one result set: the loop calls
  \<open>writerow\<close> once for each element of a Python set, whose iteration order the language
  leaves open, so the rows are kept as a set.
\<close>

datatype event =
  Log string
| Err string
| ConvertQuery string
| Select string
| OpenOutput string
| WriteRow "string list"
| WriteRows "string list set"
| CloseOutput

type_synonym 'a res = "event list \<times> (stop + 'a)"

definition bind :: "'a res \<Rightarrow> ('a \<Rightarrow> 'b res) \<Rightarrow> 'b res" where
  "bind m f = (case m of
     (es, Inl s) \<Rightarrow> (es, Inl s)
   | (es, Inr x) \<Rightarrow> (case f x of (es', r) \<Rightarrow> (es @ es', r)))"

definition emit :: "event list \<Rightarrow> unit res" where
  "emit es = (es, Inr ())"

section \<open>err and log\<close>

definition err :: "string \<Rightarrow> event" where
  "err msg = Err (''ERROR: '' @ msg)"

definition log_nl :: "string \<Rightarrow> string \<Rightarrow> event" where
  "log_nl msg newline = Log (msg @ newline)"

text \<open>\<open>log(msg)\<close> with the default \<open>newline='\n'\<close>.\<close>

definition log :: "string \<Rightarrow> event" where
  "log msg = log_nl msg [CHR 0x0A]"

section \<open>process_search\<close>

text \<open>The tuple added for a record of the cloud backend and of the on-premises backend.\<close>

definition th_tuple :: "th_process \<Rightarrow> proc_tuple" where
  "th_tuple proc = (lower (str_opt (device_name proc)),
                    lower (str_opt (process_username proc)),
                    str_opt (process_name proc),
                    str_opt (process_cmdline proc))"

definition r_tuple :: "r_process \<Rightarrow> proc_tuple" where
  "r_tuple proc = (lower (proc_hostname proc),
                   lower (proc_username proc),
                   proc_path proc,
                   proc_cmdline proc)"

text \<open>The loop \<open>for proc in ...: results.add(...)\<close> over the records yielded.\<close>

fun add_all :: "('p \<Rightarrow> proc_tuple) \<Rightarrow> 'p list \<Rightarrow> proc_tuple set \<Rightarrow> proc_tuple set" where
  "add_all tup [] results = results"
| "add_all tup (proc # procs) results = add_all tup procs (insert (tup proc) results)"

definition ctrl_c_msg :: string where
  "ctrl_c_msg = ''Caught CTRL-C. Returning what we have . . .'' @ [CHR 0x0A]"

text \<open>
  \<open>query += query_base\<close> and the loop, inside the outer \<open>try\<close>: a \<open>KeyboardInterrupt\<close>
  is logged and the records added so far are returned, any other exception goes on.
\<close>

definition collect :: "('p \<Rightarrow> proc_tuple) \<Rightarrow> (string \<Rightarrow> 'p cursor) \<Rightarrow> string \<Rightarrow> string
    \<Rightarrow> proc_tuple set res" where
  "collect tup select query query_base =
     (case select (query @ query_base) of
        (procs, None) \<Rightarrow> ([Select (query @ query_base)], Inr (add_all tup procs {}))
      | (procs, Some KeyboardInterrupt) \<Rightarrow>
          ([Select (query @ query_base), log ctrl_c_msg], Inr (add_all tup procs {}))
      | (procs, Some e) \<Rightarrow> ([Select (query @ query_base)], Inl (Raised e)))"

definition cant_convert_msg :: "string \<Rightarrow> string" where
  "cant_convert_msg query =
     [CHR 0x0A] @ ''Can'' @ [CHR 0x27] @ ''t convert query: '' @ query @ ''. Skipping . . .''"

definition process_search :: "cb_conn \<Rightarrow> string \<Rightarrow> string \<Rightarrow> bool \<Rightarrow> proc_tuple set res" where
  "process_search cb_conn query query_base translate =
     (case cb_conn of
        CbThreatHunterAPI select convert_query \<Rightarrow>
          (if translate then
             (case convert_query query of
                Inl ServerError \<Rightarrow> ([ConvertQuery query, log (cant_convert_msg query)], Inr {})
              | Inl KeyboardInterrupt \<Rightarrow> ([ConvertQuery query, log ctrl_c_msg], Inr {})
              | Inl e \<Rightarrow> ([ConvertQuery query], Inl (Raised e))
              | Inr query' \<Rightarrow>
                  bind (emit [ConvertQuery query]) (\<lambda>_. collect th_tuple select query' query_base))
           else collect th_tuple select query query_base)
      | CbEnterpriseResponseAPI select \<Rightarrow> collect r_tuple select query query_base)"

section \<open>nested_process_search\<close>

text \<open>The query built for one search field and its terms.\<close>

definition field_query :: "string \<Rightarrow> string list \<Rightarrow> string" where
  "field_query search_field terms =
     ''('' @ str_join '' OR '' (map (\<lambda>term. search_field @ '':'' @ term) terms) @ '')''"

text \<open>
  The loop over \<open>criteria.items()\<close>, the dictionary being given by its items in
  iteration order, with the accumulator \<open>results\<close>.
\<close>

fun nested_loop :: "cb_conn \<Rightarrow> (string \<times> string list) list \<Rightarrow> string \<Rightarrow> bool
    \<Rightarrow> proc_tuple set \<Rightarrow> proc_tuple set res" where
  "nested_loop cb_conn [] query_base translate results = ([], Inr results)"
| "nested_loop cb_conn ((search_field, terms) # rest) query_base translate results =
     bind (process_search cb_conn (field_query search_field terms) query_base translate)
       (\<lambda>found. nested_loop cb_conn rest query_base translate (results \<union> found))"

definition nested_process_search :: "cb_conn \<Rightarrow> (string \<times> string list) list \<Rightarrow> string \<Rightarrow> bool
    \<Rightarrow> proc_tuple set res" where
  "nested_process_search cb_conn criteria query_base translate =
     nested_loop cb_conn criteria query_base translate {}"

section \<open>The command line\<close>

text \<open>
  The namespace \<open>parser.parse_args()\<close> returns. An option that was not given is \<open>None\<close>;
  the two flags are booleans and \<open>--profile\<close> has a default. The parser accepts exactly
  one of \<open>--deffile\<close>, \<open>--defdir\<close>, \<open>--query\<close> and \<open>--iocfile\<close>.
\<close>

record args =
  prefix :: "string option"
  profile :: string
  cbc :: bool
  translate :: bool
  days :: "int option"
  minutes :: "int option"
  deffile :: "string option"
  defdir :: "string option"
  query :: "string option"
  iocfile :: "string option"
  hostname :: "string option"
  username :: "string option"
  ioctype :: "string option"

text \<open>
  \<open>--days\<close> and \<open>--minutes\<close> as they stand on the command line, in order. Both are
  declared with \<open>action="store"\<close>: each occurrence overwrites the value of its own
  option and leaves the other option alone.
\<close>

datatype time_option = Opt_days int | Opt_minutes int

fun store_time :: "time_option \<Rightarrow> args \<Rightarrow> args" where
  "store_time (Opt_days n) a = a\<lparr>days := Some n\<rparr>"
| "store_time (Opt_minutes n) a = a\<lparr>minutes := Some n\<rparr>"

definition parse_time_options :: "time_option list \<Rightarrow> args \<Rightarrow> args" where
  "parse_time_options opts a = fold store_time opts a"

text \<open>
  \<open>parser.error(msg)\<close>: argparse prints the usage and the message to stderr and exits
  with status 2. The event keeps the message, without the usage.
\<close>

definition parser_error :: "string \<Rightarrow> 'a res" where
  "parser_error msg = ([Err msg], Inl (SystemExit 2))"

section \<open>The world outside the program\<close>

datatype timedelta = Timedelta_days int | Timedelta_minutes int

text \<open>
  What the program asks of its surroundings:
  \<^item> \<open>new_response_api\<close>, \<open>new_threathunter_api\<close>: constructing the client for a
    profile, which gives its methods or raises;
  \<^item> \<open>start_time_text d\<close>: the text of
    \<open>(datetime.now() - d).strftime('%Y-%m-%dT%H:%M:%S.%fZ')\<close>, or the exception raised;
  \<^item> \<open>path_exists\<close>: \<open>os.path.exists\<close>;
  \<^item> \<open>walk\<close>: the pairs of directory and file names that \<open>os.walk\<close> yields;
  \<^item> \<open>open_output\<close>: opening the output file for writing, which may raise;
  \<^item> \<open>read_text\<close>: opening a text file and reading it, line ends given as \<open>\n\<close>;
  \<^item> \<open>load_json\<close>: opening a definition file and \<open>json.load\<close>, for a document of the
    documented shape (program to search field to list of terms), each dictionary given
    by its items in iteration order.
\<close>

record env =
  new_response_api :: "string \<Rightarrow> exn + (string \<Rightarrow> r_process cursor)"
  new_threathunter_api ::
    "string \<Rightarrow> exn + ((string \<Rightarrow> th_process cursor) \<times> (string \<Rightarrow> exn + string))"
  start_time_text :: "timedelta \<Rightarrow> exn + string"
  path_exists :: "string \<Rightarrow> bool"
  walk :: "string \<Rightarrow> (string \<times> string list) list"
  open_output :: "string \<Rightarrow> exn option"
  read_text :: "string \<Rightarrow> exn + string"
  load_json :: "string \<Rightarrow> exn + (string \<times> (string \<times> string list) list) list"

section \<open>Paths and lines\<close>

text \<open>\<open>os.path.join(a, b)\<close>, \<open>os.path.basename\<close> and \<open>os.path.splitext\<close> on POSIX.\<close>

definition path_join :: "string \<Rightarrow> string \<Rightarrow> string" where
  "path_join a b =
     (if starts_with b ''/'' then b
      else if a = [] \<or> ends_with a ''/'' then a @ b
      else a @ ''/'' @ b)"

definition basename :: "string \<Rightarrow> string" where
  "basename p = rev (takeWhile (\<lambda>c. c \<noteq> CHR ''/'') (rev p))"

text \<open>
  \<open>splitext\<close> cuts at the last dot of the last component, unless only dots stand before
  it in that component.
\<close>

definition splitext :: "string \<Rightarrow> string \<times> string" where
  "splitext p =
     (let name = basename p;
          ext = rev (takeWhile (\<lambda>c. c \<noteq> CHR ''.'') (rev name));
          stem = take (length name - length ext - 1) name
      in if length ext < length name \<and> list_ex (\<lambda>c. c \<noteq> CHR ''.'') stem
         then (take (length p - length ext - 1) p, CHR ''.'' # ext)
         else (p, []))"

text \<open>\<open>readlines()\<close>: the lines of a text, each with its line end.\<close>

fun readlines_from :: "string \<Rightarrow> string \<Rightarrow> string list" where
  "readlines_from line [] = (if line = [] then [] else [line])"
| "readlines_from line (c # cs) =
     (if c = CHR 0x0A then (line @ [c]) # readlines_from [] cs
      else readlines_from (line @ [c]) cs)"

definition readlines :: "string \<Rightarrow> string list" where
  "readlines text = readlines_from [] text"

section \<open>main\<close>

text \<open>
  \<open>main\<close> of \<open>surveyor.py\<close>, from the namespace of the parsed command line on, as Python 3
  runs it (\<open>_python3\<close> is true). The stages below follow the lines of the source in
  order: the output file name (147 to 150), the backend and the time window (152 to 172),
  the two filters (174 to 181), the definition files (183 to 196), the output file and
  its header (198 to 203), the three modes (205 to 256) and the end (258 to 260).
\<close>

definition output_filename :: "args \<Rightarrow> string" where
  "output_filename a =
     (if truthy (prefix a) then the (prefix a) @ ''-survey.csv'' else ''survey.csv'')"

text \<open>The time window added to \<open>query_base\<close> for the cloud backend.\<close>

definition time_window_cbc :: "env \<Rightarrow> args \<Rightarrow> string res" where
  "time_window_cbc env a =
     (if truthy_int (days a) then
        (case start_time_text env (Timedelta_days (the (days a))) of
           Inl e \<Rightarrow> ([], Inl (Raised e))
         | Inr start_time \<Rightarrow> ([], Inr ('' process_start_time:['' @ start_time @ '' TO *]'')))
      else if truthy_int (minutes a) then
        (case start_time_text env (Timedelta_minutes (the (minutes a))) of
           Inl e \<Rightarrow> ([], Inl (Raised e))
         | Inr start_time \<Rightarrow> ([], Inr ('' process_start_time:['' @ start_time @ '' TO *]'')))
      else ([], Inr []))"

text \<open>The time window added to \<open>query_base\<close> for the on-premises backend.\<close>

definition time_window_response :: "args \<Rightarrow> string" where
  "time_window_response a =
     (if truthy_int (days a) then '' start:-'' @ str_int (the (days a) * 1440) @ ''m''
      else if truthy_int (minutes a) then '' start:-'' @ str_int (the (minutes a)) @ ''m''
      else [])"

text \<open>
  Choosing the backend: the names of the host and user fields, the connection and
  \<open>query_base\<close> with its time window.
\<close>

definition connect :: "env \<Rightarrow> args \<Rightarrow> (string \<times> string \<times> cb_conn \<times> string) res" where
  "connect env a =
     (if cbc a then
        (case new_threathunter_api env (profile a) of
           Inl e \<Rightarrow> ([], Inl (Raised e))
         | Inr (select, convert_query) \<Rightarrow>
             bind (time_window_cbc env a) (\<lambda>query_base.
               ([], Inr (''device_name'', ''process_username'',
                         CbThreatHunterAPI select convert_query, query_base))))
      else
        (case new_response_api env (profile a) of
           Inl e \<Rightarrow> ([], Inl (Raised e))
         | Inr select \<Rightarrow>
             ([], Inr (''hostname'', ''username'',
                       CbEnterpriseResponseAPI select, time_window_response a))))"

text \<open>The message \<open>'Cannot use --hostname with "%s:" (in query)' % host_key\<close>, and the same
  for \<open>--username\<close>.\<close>

definition conflict_msg :: "string \<Rightarrow> string \<Rightarrow> string" where
  "conflict_msg flag key =
     ''Cannot use --'' @ flag @ '' with '' @ [CHR 0x22] @ key @ '':'' @ [CHR 0x22] @ '' (in query)''"

definition host_filter :: "args \<Rightarrow> string \<Rightarrow> string \<Rightarrow> string res" where
  "host_filter a host_key query_base =
     (if truthy (hostname a) then
        (if truthy (query a) \<and> contains (the (query a)) host_key
         then parser_error (conflict_msg ''hostname'' host_key)
         else ([], Inr (query_base @ '' '' @ host_key @ '':'' @ the (hostname a))))
      else ([], Inr query_base))"

definition user_filter :: "args \<Rightarrow> string \<Rightarrow> string \<Rightarrow> string res" where
  "user_filter a user_key query_base =
     (if truthy (username a) then
        (if truthy (query a) \<and> contains (the (query a)) user_key
         then parser_error (conflict_msg ''username'' user_key)
         else ([], Inr (query_base @ '' '' @ user_key @ '':'' @ the (username a))))
      else ([], Inr query_base))"

definition definition_files :: "env \<Rightarrow> args \<Rightarrow> string list res" where
  "definition_files env a =
     (if truthy (deffile a) then
        (if \<not> path_exists env (the (deffile a))
         then ([err ''deffile does not exist''], Inl (SystemExit 1))
         else ([], Inr [the (deffile a)]))
      else if truthy (defdir a) then
        (if \<not> path_exists env (the (defdir a))
         then ([err ''defdir does not exist''], Inl (SystemExit 1))
         else ([], Inr (concat (map (\<lambda>(root, files).
                 map (path_join root) (filter (\<lambda>filename. ends_with filename ''.json'') files))
               (walk env (the (defdir a)))))))
      else ([], Inr []))"

definition header :: "string list" where
  "header = [''endpoint'', ''username'', ''process_path'', ''cmdline'', ''program'', ''source'']"

definition open_csv :: "env \<Rightarrow> string \<Rightarrow> unit res" where
  "open_csv env filename =
     (case open_output env filename of
        Some e \<Rightarrow> ([], Inl (Raised e))
      | None \<Rightarrow> ([OpenOutput filename, WriteRow header], Inr ()))"

text \<open>The row \<open>[r[0], r[1], r[2], r[3], program, source]\<close>.\<close>

definition row :: "string \<Rightarrow> string \<Rightarrow> proc_tuple \<Rightarrow> string list" where
  "row program source r = (case r of (r0, r1, r2, r3) \<Rightarrow> [r0, r1, r2, r3, program, source])"

text \<open>The count logged and the rows written for one result set, the same lines in each of
  the three modes.\<close>

definition report :: "string \<Rightarrow> string \<Rightarrow> proc_tuple set \<Rightarrow> event list" where
  "report program source result_set =
     [log ('': '' @ str_int (int (card result_set)) @ '' results''),
      WriteRows (row program source ` result_set)]"

definition run_query :: "cb_conn \<Rightarrow> args \<Rightarrow> string \<Rightarrow> unit res" where
  "run_query cb a query_base =
     bind (emit [log_nl ''Processing query'' []]) (\<lambda>_.
     bind (process_search cb (the (query a)) query_base (translate a)) (\<lambda>result_set.
     emit (report (the (query a)) ''query'' result_set)))"

text \<open>The query built for one line of the indicator file.\<close>

definition ioc_query :: "args \<Rightarrow> string \<Rightarrow> string" where
  "ioc_query a line = str_opt (ioctype a) @ '':'' @ strip line"

fun ioc_loop :: "cb_conn \<Rightarrow> args \<Rightarrow> string \<Rightarrow> string list \<Rightarrow> unit res" where
  "ioc_loop cb a query_base [] = ([], Inr ())"
| "ioc_loop cb a query_base (line # data) =
     bind (process_search cb (ioc_query a line) query_base (translate a)) (\<lambda>result_set.
     bind (emit (log_nl (''--> '' @ strip line) [] # report (strip line) ''ioc'' result_set)) (\<lambda>_.
     ioc_loop cb a query_base data))"

definition run_iocfile :: "env \<Rightarrow> cb_conn \<Rightarrow> args \<Rightarrow> string \<Rightarrow> unit res" where
  "run_iocfile env cb a query_base =
     (case read_text env (the (iocfile a)) of
        Inl e \<Rightarrow> ([], Inl (Raised e))
      | Inr text \<Rightarrow>
          bind (emit [log (''Processing IOC file: '' @ the (iocfile a))]) (\<lambda>_.
          ioc_loop cb a query_base (readlines text)))"

fun programs_loop :: "cb_conn \<Rightarrow> args \<Rightarrow> string \<Rightarrow> string
    \<Rightarrow> (string \<times> (string \<times> string list) list) list \<Rightarrow> unit res" where
  "programs_loop cb a query_base source [] = ([], Inr ())"
| "programs_loop cb a query_base source ((program, criteria) # rest) =
     bind (emit [log_nl (''--> '' @ program) []]) (\<lambda>_.
     bind (nested_process_search cb criteria query_base (translate a)) (\<lambda>result_set.
     bind (emit (report program source result_set)) (\<lambda>_.
     programs_loop cb a query_base source rest)))"

text \<open>The source label of a definition file.\<close>

definition source_label :: "string \<Rightarrow> string" where
  "source_label definition_file = fst (splitext (basename definition_file))"

fun files_loop :: "env \<Rightarrow> cb_conn \<Rightarrow> args \<Rightarrow> string \<Rightarrow> string list \<Rightarrow> unit res" where
  "files_loop env cb a query_base [] = ([], Inr ())"
| "files_loop env cb a query_base (definition_file # rest) =
     bind (emit [log (''Processing definition file: '' @ definition_file)]) (\<lambda>_.
     (case load_json env definition_file of
        Inl e \<Rightarrow> ([], Inl (Raised e))
      | Inr programs \<Rightarrow>
          bind (programs_loop cb a query_base (source_label definition_file) programs) (\<lambda>_.
          files_loop env cb a query_base rest)))"

text \<open>What follows the header: one of the three modes.\<close>

definition survey :: "env \<Rightarrow> cb_conn \<Rightarrow> args \<Rightarrow> string \<Rightarrow> string list \<Rightarrow> unit res" where
  "survey env cb a query_base files =
     (if truthy (query a) then run_query cb a query_base
      else if truthy (iocfile a) then run_iocfile env cb a query_base
      else files_loop env cb a query_base files)"

text \<open>
  Everything before the output file is opened: the check of \<open>--ioctype\<close>, the
  connection, the two filters and the definition files. It gives the connection, the
  finished \<open>query_base\<close> and the definition files.
\<close>

definition prepare :: "env \<Rightarrow> args \<Rightarrow> (cb_conn \<times> string \<times> string list) res" where
  "prepare env a =
     (if iocfile a \<noteq> None \<and> ioctype a = None
      then parser_error ''--iocfile requires --ioctype''
      else
        bind (connect env a) (\<lambda>(host_key, user_key, cb, query_base0).
        bind (host_filter a host_key query_base0) (\<lambda>query_base1.
        bind (user_filter a user_key query_base1) (\<lambda>query_base.
        bind (definition_files env a) (\<lambda>files.
        ([], Inr (cb, query_base, files)))))))"

definition main :: "env \<Rightarrow> args \<Rightarrow> unit res" where
  "main env a =
     bind (prepare env a) (\<lambda>(cb, query_base, files).
     bind (open_csv env (output_filename a)) (\<lambda>_.
     bind (survey env cb a query_base files) (\<lambda>_.
     emit [CloseOutput, log ([CHR 0x0A] @ ''Results saved: '' @ output_filename a)])))"

text \<open>
  The status the process ends with: \<open>sys.exit(main())\<close> gives 0 when \<open>main\<close> returns,
  \<open>sys.exit(n)\<close> gives \<open>n\<close>, an exception nothing catches ends the interpreter with
  status 1, and a \<open>KeyboardInterrupt\<close> nothing catches ends it through the interrupt signal,
  which a shell reports as 130.
\<close>

definition exit_status :: "'a res \<Rightarrow> nat" where
  "exit_status r =
     (case snd r of
        Inr _ \<Rightarrow> 0
      | Inl (SystemExit n) \<Rightarrow> n
      | Inl (Raised KeyboardInterrupt) \<Rightarrow> 130
      | Inl (Raised e) \<Rightarrow> 1)"

section \<open>Reading a run\<close>

text \<open>A part of the run returned, rather than exiting or raising.\<close>

definition returns :: "'a res \<Rightarrow> bool" where
  "returns r = (case snd r of Inr _ \<Rightarrow> True | Inl _ \<Rightarrow> False)"

text \<open>An iteration over the records of a query that ends or is interrupted: it does not
  raise anything but \<open>KeyboardInterrupt\<close>.\<close>

definition completes :: "'p cursor \<Rightarrow> bool" where
  "completes c = (snd c = None \<or> snd c = Some KeyboardInterrupt)"

text \<open>The result set a search returned (empty when it raised).\<close>

definition result_of :: "proc_tuple set res \<Rightarrow> proc_tuple set" where
  "result_of r = (case snd r of Inr found \<Rightarrow> found | Inl _ \<Rightarrow> {})"

text \<open>The query strings sent to the backend, in order.\<close>

fun selects :: "event list \<Rightarrow> string list" where
  "selects [] = []"
| "selects (Select q # es) = q # selects es"
| "selects (e # es) = selects es"

text \<open>The programs of a definition file that loads (none when loading it raises).\<close>

definition loaded :: "env \<Rightarrow> string \<Rightarrow> (string \<times> (string \<times> string list) list) list" where
  "loaded env definition_file =
     (case load_json env definition_file of Inr programs \<Rightarrow> programs | Inl e \<Rightarrow> [])"

text \<open>\<open>isinstance(cb_conn, CbThreatHunterAPI)\<close>\<close>

fun is_cloud :: "cb_conn \<Rightarrow> bool" where
  "is_cloud (CbThreatHunterAPI select convert_query) = True"
| "is_cloud (CbEnterpriseResponseAPI select) = False"

text \<open>The events that touch the output file, and those that reach the backend.\<close>

fun output_event :: "event \<Rightarrow> bool" where
  "output_event (OpenOutput f) = True"
| "output_event (WriteRow r) = True"
| "output_event (WriteRows rs) = True"
| "output_event CloseOutput = True"
| "output_event e = False"

fun backend_event :: "event \<Rightarrow> bool" where
  "backend_event (Select q) = True"
| "backend_event (ConvertQuery q) = True"
| "backend_event e = False"

fun is_rows :: "event \<Rightarrow> bool" where
  "is_rows (WriteRows rs) = True"
| "is_rows e = False"

text \<open>The events of a search (messages on stdout and requests to the backend) and those of
  a survey, which also writes rows.\<close>

fun search_event :: "event \<Rightarrow> bool" where
  "search_event (Log msg) = True"
| "search_event (ConvertQuery q) = True"
| "search_event (Select q) = True"
| "search_event e = False"

fun survey_event :: "event \<Rightarrow> bool" where
  "survey_event (Log msg) = True"
| "survey_event (ConvertQuery q) = True"
| "survey_event (Select q) = True"
| "survey_event (WriteRows rs) = True"
| "survey_event e = False"

text \<open>A part of the run that never calls \<open>sys.exit\<close>: it returns or raises.\<close>

definition no_exit :: "'a res \<Rightarrow> bool" where
  "no_exit r = (\<forall>n. snd r \<noteq> Inl (SystemExit n))"



text \<open>
  The indicators of an indicator file as the specification words them: the trimmed
  lines that are not empty.
\<close>

definition nonempty_trimmed_lines :: "string \<Rightarrow> string list" where
  "nonempty_trimmed_lines text = filter (\<lambda>line. line \<noteq> []) (map strip (readlines text))"

section \<open>Example inputs\<close>

text \<open>A command line with no option given, and surroundings in which nothing fails
  and the backend has no record.\<close>

definition no_args :: args where
  "no_args = \<lparr>prefix = None, profile = ''default'', cbc = False, translate = False,
              days = None, minutes = None, deffile = None, defdir = None, query = None,
              iocfile = None, hostname = None, username = None, ioctype = None\<rparr>"

definition quiet_env :: env where
  "quiet_env = \<lparr>new_response_api = (\<lambda>p. Inr (\<lambda>q. ([], None))),
                new_threathunter_api = (\<lambda>p. Inr ((\<lambda>q. ([], None)), (\<lambda>q. Inr q))),
                start_time_text = (\<lambda>d. Inr ''2020-01-01T00:00:00.000000Z''),
                path_exists = (\<lambda>p. True),
                walk = (\<lambda>p. []),
                open_output = (\<lambda>f. None),
                read_text = (\<lambda>p. Inr []),
                load_json = (\<lambda>p. Inr [])\<rparr>"

text \<open>Surroundings in which no path exists.\<close>

definition env_no_paths :: env where
  "env_no_paths = quiet_env\<lparr>path_exists := (\<lambda>p. False)\<rparr>"

text \<open>Two records of one process on one host, reported with different letter case.\<close>

definition proc_upper :: r_process where
  "proc_upper = \<lparr>proc_hostname = ''WS-01'', proc_username = ''Alice'',
                 proc_path = ''c:/windows/cmd.exe'', proc_cmdline = ''cmd.exe /c dir''\<rparr>"

definition proc_lower :: r_process where
  "proc_lower = \<lparr>proc_hostname = ''ws-01'', proc_username = ''alice'',
                 proc_path = ''c:/windows/cmd.exe'', proc_cmdline = ''cmd.exe /c dir''\<rparr>"

text \<open>An on-premises backend that yields these two records for every query, one that is
  interrupted after the first of them, and one whose search raises.\<close>

definition select_two :: "string \<Rightarrow> r_process cursor" where
  "select_two q = ([proc_upper, proc_lower], None)"

definition select_interrupted :: "string \<Rightarrow> r_process cursor" where
  "select_interrupted q = ([proc_upper], Some KeyboardInterrupt)"

definition select_interrupted_once :: "string \<Rightarrow> r_process cursor" where
  "select_interrupted_once q =
     (if q = ''ipaddr:1.2.3.4'' then ([proc_upper], Some KeyboardInterrupt) else ([proc_lower], None))"

definition env_interrupted_once :: env where
  "env_interrupted_once = quiet_env\<lparr>new_response_api := (\<lambda>p. Inr select_interrupted_once),
     read_text := (\<lambda>p. Inr (''1.2.3.4'' @ [CHR 0x0A] @ ''5.6.7.8'' @ [CHR 0x0A]))\<rparr>"

definition select_failing :: "string \<Rightarrow> r_process cursor" where
  "select_failing q = ([proc_upper], Some (OtherError ''ApiError''))"

definition env_two :: env where
  "env_two = quiet_env\<lparr>new_response_api := (\<lambda>p. Inr select_two)\<rparr>"

definition env_failing :: env where
  "env_failing = quiet_env\<lparr>new_response_api := (\<lambda>p. Inr select_failing)\<rparr>"

text \<open>Two records whose names differ in the case of letters beyond ASCII.\<close>

definition proc_umlaut_upper :: r_process where
  "proc_umlaut_upper = \<lparr>proc_hostname = ''B'' @ [CHR 0xDC] @ ''RO-1'', proc_username = [CHR 0xC4] @ ''nne'',
                 proc_path = ''c:/windows/cmd.exe'', proc_cmdline = ''cmd.exe /c dir''\<rparr>"

definition proc_umlaut_lower :: r_process where
  "proc_umlaut_lower = \<lparr>proc_hostname = ''b'' @ [CHR 0xFC] @ ''ro-1'', proc_username = [CHR 0xE4] @ ''NNE'',
                 proc_path = ''c:/windows/cmd.exe'', proc_cmdline = ''cmd.exe /c dir''\<rparr>"

definition select_umlauts :: "string \<Rightarrow> r_process cursor" where
  "select_umlauts q = ([proc_umlaut_upper, proc_umlaut_lower], None)"

text \<open>A definition file of two programs, and a backend that is interrupted while it
  answers the query of the first and answers the query of the second to the end.\<close>

definition select_chrome_interrupted :: "string \<Rightarrow> r_process cursor" where
  "select_chrome_interrupted q =
     (if q = ''(process_name:chrome.exe)'' then ([proc_upper], Some KeyboardInterrupt)
      else ([proc_lower], None))"

definition env_two_programs :: env where
  "env_two_programs = quiet_env\<lparr>new_response_api := (\<lambda>p. Inr select_chrome_interrupted),
     load_json := (\<lambda>p. Inr [(''chrome'', [(''process_name'', [''chrome.exe''])]),
                              (''firefox'', [(''process_name'', [''firefox.exe''])])])\<rparr>"

text \<open>A cloud backend whose translation fails with a server error.\<close>

definition convert_failing :: "string \<Rightarrow> exn + string" where
  "convert_failing q = Inl ServerError"

text \<open>A cloud backend that yields two records differing in letter case; the command
  line of the process is absent from both.\<close>

definition th_upper :: th_process where
  "th_upper = \<lparr>device_name = Some ''WS-01'', process_username = Some ''Alice'',
               process_name = Some ''c:/windows/cmd.exe'', process_cmdline = None\<rparr>"

definition th_lower :: th_process where
  "th_lower = \<lparr>device_name = Some ''ws-01'', process_username = Some ''alice'',
               process_name = Some ''c:/windows/cmd.exe'', process_cmdline = None\<rparr>"

definition th_select_two :: "string \<Rightarrow> th_process cursor" where
  "th_select_two q = ([th_upper, th_lower], None)"

definition th_select_interrupted :: "string \<Rightarrow> th_process cursor" where
  "th_select_interrupted q = ([th_upper], Some KeyboardInterrupt)"

text \<open>An indicator file of two indicators with an empty line between them.\<close>

definition ioc_text :: string where
  "ioc_text = ''1.2.3.4'' @ [CHR 0x0A, CHR 0x0A] @ ''5.6.7.8''"

definition env_ioc :: env where
  "env_ioc = quiet_env\<lparr>read_text := (\<lambda>p. Inr ioc_text)\<rparr>"

definition args_ioc :: args where
  "args_ioc = no_args\<lparr>iocfile := Some ''iocs.txt'', ioctype := Some ''ipaddr''\<rparr>"

text \<open>The definition file \<open>browsers.json\<close> of the first end-to-end scenario.\<close>

definition env_browsers :: env where
  "env_browsers = env_two\<lparr>load_json := (\<lambda>p. Inr [(''chrome'', [(''process_name'', [''chrome.exe''])])])\<rparr>"

section \<open>Evaluation and general facts\<close>

lemma lower_examples:
  "lower ''WS-01'' = ''ws-01''" "lower ''ws-01'' = ''ws-01''"
  "lower ''Alice'' = ''alice''" "lower ''alice'' = ''alice''"
  "lower [CHR ''B'', CHR 0xDC, CHR ''R'', CHR ''O'', CHR ''-'', CHR ''1''] =
     [CHR ''b'', CHR 0xFC, CHR ''r'', CHR ''o'', CHR ''-'', CHR ''1'']"
  "lower [CHR ''b'', CHR 0xFC, CHR ''r'', CHR ''o'', CHR ''-'', CHR ''1''] =
     [CHR ''b'', CHR 0xFC, CHR ''r'', CHR ''o'', CHR ''-'', CHR ''1'']"
  "lower [CHR 0xC4, CHR ''n'', CHR ''n'', CHR ''e''] = [CHR 0xE4, CHR ''n'', CHR ''n'', CHR ''e'']"
  "lower [CHR 0xE4, CHR ''N'', CHR ''N'', CHR ''E''] = [CHR 0xE4, CHR ''n'', CHR ''n'', CHR ''e'']"
  by code_simp+


lemmas string_defs = lower_examples strip_def is_space_def str_int_def nat_digits.simps
  digit_char_def str_opt_def truthy_def truthy_int_def

lemmas search_defs = process_search_def collect_def field_query_def nested_process_search_def
  bind_def emit_def log_def log_nl_def ctrl_c_msg_def cant_convert_msg_def r_tuple_def th_tuple_def

lemmas main_defs = main_def prepare_def connect_def time_window_response_def time_window_cbc_def
  host_filter_def user_filter_def definition_files_def open_csv_def output_filename_def survey_def
  run_query_def run_iocfile_def ioc_query_def readlines_def report_def row_def header_def
  parser_error_def err_def conflict_msg_def source_label_def basename_def splitext_def path_join_def ends_with_def
  exit_status_def

lemmas example_defs = no_args_def quiet_env_def proc_upper_def proc_lower_def select_two_def
  select_interrupted_def select_interrupted_once_def select_failing_def env_two_def
  env_interrupted_once_def env_failing_def convert_failing_def
  th_upper_def th_lower_def th_select_two_def th_select_interrupted_def
  ioc_text_def env_ioc_def args_ioc_def env_browsers_def env_no_paths_def
  proc_umlaut_upper_def proc_umlaut_lower_def select_umlauts_def select_chrome_interrupted_def
  env_two_programs_def

lemma no_args_simps:
  "prefix no_args = None" "profile no_args = ''default''" "cbc no_args = False"
  "translate no_args = False" "days no_args = None" "minutes no_args = None"
  "deffile no_args = None" "defdir no_args = None" "query no_args = None"
  "iocfile no_args = None" "hostname no_args = None" "username no_args = None"
  "ioctype no_args = None"
  by (simp_all add: no_args_def)

lemma quiet_env_simps:
  "new_response_api quiet_env p = Inr (\<lambda>q. ([], None))"
  "new_threathunter_api quiet_env p = Inr ((\<lambda>q. ([], None)), (\<lambda>q. Inr q))"
  "start_time_text quiet_env d = Inr ''2020-01-01T00:00:00.000000Z''"
  "path_exists quiet_env p = True" "walk quiet_env p = []" "open_output quiet_env f = None"
  "read_text quiet_env p = Inr []" "load_json quiet_env p = Inr []"
  by (simp_all add: quiet_env_def)

lemma bind_Inr: "m = (es, Inr x) \<Longrightarrow> bind m f = (es @ fst (f x), snd (f x))"
  by (simp add: bind_def split: prod.splits)

lemma bind_Inl: "m = (es, Inl s) \<Longrightarrow> bind m f = (es, Inl s)"
  by (simp add: bind_def)

lemma fst_bind:
  "fst (bind m f) = fst m @ (case snd m of Inl s \<Rightarrow> [] | Inr x \<Rightarrow> fst (f x))"
  by (cases m) (simp add: bind_def split: sum.splits prod.splits)

lemma snd_bind:
  "snd (bind m f) = (case snd m of Inl s \<Rightarrow> Inl s | Inr x \<Rightarrow> snd (f x))"
  by (cases m) (simp add: bind_def split: sum.splits prod.splits)

lemma returns_cases: "returns r \<Longrightarrow> \<exists>es x. r = (es, Inr x)"
  by (cases r) (auto simp: returns_def split: sum.splits)

lemma selects_append: "selects (es @ es') = selects es @ selects es'"
  by (induction es rule: selects.induct) auto

lemma add_all_eq: "add_all tup procs results = results \<union> tup ` set procs"
  by (induction procs arbitrary: results) auto

lemma str_join_Cons: "str_join sep (x # xs) = x @ concat (map (\<lambda>y. sep @ y) xs)"
  by (induction xs arbitrary: x) auto

lemma nested_loop_returns:
  "(\<And>F ts. (F, ts) \<in> set criteria \<Longrightarrow> returns (process_search cb (field_query F ts) base tr)) \<Longrightarrow>
   nested_loop cb criteria base tr acc =
     (concat (map (\<lambda>(F, ts). fst (process_search cb (field_query F ts) base tr)) criteria),
      Inr (acc \<union> (\<Union>(F, ts) \<in> set criteria. result_of (process_search cb (field_query F ts) base tr))))"
proof (induction criteria arbitrary: acc)
  case Nil
  then show ?case by simp
next
  case (Cons item rest)
  obtain F ts where item: "item = (F, ts)" by (cases item)
  have "returns (process_search cb (field_query F ts) base tr)"
    using Cons.prems item by simp
  then obtain es found where ps: "process_search cb (field_query F ts) base tr = (es, Inr found)"
    using returns_cases by blast
  have rest: "nested_loop cb rest base tr (acc \<union> found) =
     (concat (map (\<lambda>(F, ts). fst (process_search cb (field_query F ts) base tr)) rest),
      Inr ((acc \<union> found) \<union> (\<Union>(F, ts) \<in> set rest. result_of (process_search cb (field_query F ts) base tr))))"
    using Cons.IH Cons.prems by simp
  show ?case
    using ps rest by (simp add: item bind_Inr result_of_def Un_assoc)
qed

lemma selects_collect: "selects (fst (collect tup select q base)) = [q @ base]"
  by (simp add: collect_def log_def log_nl_def split: prod.splits option.splits exn.splits)

lemma selects_process_search:
  "\<not> (tr \<and> is_cloud cb) \<Longrightarrow> selects (fst (process_search cb q base tr)) = [q @ base]"
  by (cases cb) (auto simp: process_search_def selects_collect)




lemma letters_distinct: "distinct (upper_letters @ lower_letters)"
  by code_simp

lemma letters_length: "length upper_letters = length lower_letters"
  by (simp add: upper_letters_def lower_letters_def)

lemma fst_letter_pairs: "map fst letter_pairs = upper_letters"
  by (simp add: letter_pairs_def letters_length)

lemma snd_letter_pairs: "map snd letter_pairs = lower_letters"
  by (simp add: letter_pairs_def letters_length)

lemma small_not_capital: "d \<in> set lower_letters \<Longrightarrow> map_of letter_pairs d = None"
proof -
  assume "d \<in> set lower_letters"
  then have "d \<notin> set upper_letters" using letters_distinct by auto
  then have "d \<notin> fst ` set letter_pairs" using fst_letter_pairs by (metis set_map)
  then show ?thesis by (simp add: map_of_eq_None_iff)
qed

lemma lower_char_pair: "(c, d) \<in> set letter_pairs \<Longrightarrow> lower_char c = d \<and> lower_char d = d"
proof -
  assume p: "(c, d) \<in> set letter_pairs"
  have "distinct (map fst letter_pairs)" using letters_distinct fst_letter_pairs by simp
  then have "map_of letter_pairs c = Some d" using p by (rule map_of_is_SomeI)
  moreover have "d \<in> set lower_letters" using p snd_letter_pairs by (metis set_map image_eqI snd_conv)
  ultimately show ?thesis using small_not_capital by (simp add: lower_char_def)
qed

lemma lower_char_idem: "lower_char (lower_char c) = lower_char c"
proof (cases "map_of letter_pairs c")
  case None
  then show ?thesis by (simp add: lower_char_def)
next
  case (Some d)
  then have "(c, d) \<in> set letter_pairs" by (rule map_of_SomeD)
  then show ?thesis using lower_char_pair by (simp add: lower_char_def Some)
qed






lemma nested_loop_step:
  "process_search cb (field_query F ts) base tr = (es, Inr found) \<Longrightarrow>
   nested_loop cb ((F, ts) # rest) base tr acc =
     (es @ fst (nested_loop cb rest base tr (acc \<union> found)),
      snd (nested_loop cb rest base tr (acc \<union> found)))"
  by (simp add: bind_Inr)

lemma ioc_loop_step:
  "process_search cb (ioc_query a line) base (translate a) = (es, Inr found) \<Longrightarrow>
   ioc_loop cb a base (line # data) =
     (es @ log_nl (''--> '' @ strip line) [] # report (strip line) ''ioc'' found
         @ fst (ioc_loop cb a base data),
      snd (ioc_loop cb a base data))"
  by (simp add: bind_Inr fst_bind snd_bind emit_def)

lemma programs_loop_step:
  "nested_process_search cb criteria base (translate a) = (es, Inr found) \<Longrightarrow>
   programs_loop cb a base source ((program, criteria) # rest) =
     (log_nl (''--> '' @ program) [] # es @ report program source found
         @ fst (programs_loop cb a base source rest),
      snd (programs_loop cb a base source rest))"
  by (cases "programs_loop cb a base source rest") (simp add: emit_def bind_def)

lemma response_search:
  "select (q @ base) = (procs, ending) \<Longrightarrow> ending = None \<or> ending = Some KeyboardInterrupt \<Longrightarrow>
   process_search (CbEnterpriseResponseAPI select) q base tr =
     (Select (q @ base) # (if ending = None then [] else [log ctrl_c_msg]), Inr (r_tuple ` set procs))"
  by (auto simp: process_search_def collect_def add_all_eq)

lemma cloud_search:
  "select (q @ base) = (procs, ending) \<Longrightarrow> ending = None \<or> ending = Some KeyboardInterrupt \<Longrightarrow>
   process_search (CbThreatHunterAPI select convert) q base False =
     (Select (q @ base) # (if ending = None then [] else [log ctrl_c_msg]), Inr (th_tuple ` set procs))"
  by (auto simp: process_search_def collect_def add_all_eq)

lemma main_prepared:
  "prepare env a = (es0, Inr (cb, base, files)) \<Longrightarrow> open_output env (output_filename a) = None \<Longrightarrow>
   main env a =
     (es0 @ [OpenOutput (output_filename a), WriteRow header] @ fst (survey env cb a base files)
        @ (case snd (survey env cb a base files) of
             Inl s \<Rightarrow> []
           | Inr u \<Rightarrow> [CloseOutput, log ([CHR 0x0A] @ ''Results saved: '' @ output_filename a)]),
      (case snd (survey env cb a base files) of Inl s \<Rightarrow> Inl s | Inr u \<Rightarrow> Inr ()))"
  by (cases "survey env cb a base files")
     (simp add: main_def bind_Inr fst_bind snd_bind open_csv_def emit_def split: sum.splits)


lemma time_window_cbc_cases:
  "\<exists>r. time_window_cbc env a = ([], r) \<and> (\<forall>n. r \<noteq> Inl (SystemExit n))"
  by (simp add: time_window_cbc_def split: sum.splits)

lemma connect_cases:
  "\<exists>r. connect env a = ([], r) \<and> (\<forall>n. r \<noteq> Inl (SystemExit n))"
proof (cases "cbc a")
  case False
  then show ?thesis by (simp add: connect_def split: sum.splits)
next
  case True
  obtain r where r: "time_window_cbc env a = ([], r)" "\<forall>n. r \<noteq> Inl (SystemExit n)"
    using time_window_cbc_cases by blast
  show ?thesis
    using True r by (cases r) (auto simp: connect_def bind_def split: sum.splits prod.splits)
qed

lemma host_filter_cases:
  "(\<exists>b'. host_filter a k b = ([], Inr b')) \<or> (\<exists>msg. host_filter a k b = ([Err msg], Inl (SystemExit 2)))"
  by (simp add: host_filter_def parser_error_def)

lemma user_filter_cases:
  "(\<exists>b'. user_filter a k b = ([], Inr b')) \<or> (\<exists>msg. user_filter a k b = ([Err msg], Inl (SystemExit 2)))"
  by (simp add: user_filter_def parser_error_def)

lemma definition_files_cases:
  "(\<exists>fs. definition_files env a = ([], Inr fs))
   \<or> (\<exists>msg. definition_files env a = ([Err msg], Inl (SystemExit 1)))"
  by (simp add: definition_files_def err_def)

text \<open>How the part before the output file ends: without any event, or with one message
  on stderr and the exit status 2 or 1.\<close>

lemma prepare_cases:
  "(\<exists>r. prepare env a = ([], r) \<and> (\<forall>n. r \<noteq> Inl (SystemExit n)))
   \<or> (\<exists>msg. prepare env a = ([Err msg], Inl (SystemExit 2)))
   \<or> (\<exists>msg. prepare env a = ([Err msg], Inl (SystemExit 1)))"
proof (cases "iocfile a \<noteq> None \<and> ioctype a = None")
  case True
  then show ?thesis by (simp add: prepare_def parser_error_def)
next
  case False
  obtain r where c: "connect env a = ([], r)" "\<forall>n. r \<noteq> Inl (SystemExit n)"
    using connect_cases by blast
  show ?thesis
  proof (cases r)
    case (Inl s)
    then show ?thesis using False c by (auto simp: prepare_def bind_def)
  next
    case (Inr x)
    obtain hk uk cb b0 where x: "x = (hk, uk, cb, b0)" by (cases x)
    consider b1 where "host_filter a hk b0 = ([], Inr b1)"
      | msg where "host_filter a hk b0 = ([Err msg], Inl (SystemExit 2))"
      using host_filter_cases by blast
    then show ?thesis
    proof cases
      case 2
      then show ?thesis using False c Inr x by (auto simp: prepare_def bind_def)
    next
      case 1
      consider b where "user_filter a uk b1 = ([], Inr b)"
        | msg where "user_filter a uk b1 = ([Err msg], Inl (SystemExit 2))"
        using user_filter_cases by blast
      then show ?thesis
      proof cases
        case 2
        then show ?thesis using False c Inr x 1 by (auto simp: prepare_def bind_def)
      next
        case u: 1
        consider fs where "definition_files env a = ([], Inr fs)"
          | msg where "definition_files env a = ([Err msg], Inl (SystemExit 1))"
          using definition_files_cases by blast
        then show ?thesis
          using False c Inr x 1 u by cases (auto simp: prepare_def bind_def)
      qed
    qed
  qed
qed

lemma prepare_returns: "prepare env a = (es0, Inr x) \<Longrightarrow> es0 = []"
  using prepare_cases [of env a] by auto


lemma ioc_loop_returns:
  "(\<And>line. line \<in> set data \<Longrightarrow> returns (process_search cb (ioc_query a line) base (translate a))) \<Longrightarrow>
   ioc_loop cb a base data =
     (concat (map (\<lambda>line. fst (process_search cb (ioc_query a line) base (translate a))
                @ log_nl (''--> '' @ strip line) []
                # report (strip line) ''ioc''
                    (result_of (process_search cb (ioc_query a line) base (translate a)))) data),
      Inr ())"
proof (induction data)
  case Nil
  then show ?case by simp
next
  case (Cons line data)
  have "returns (process_search cb (ioc_query a line) base (translate a))"
    using Cons.prems by simp
  then obtain es found where
    ps: "process_search cb (ioc_query a line) base (translate a) = (es, Inr found)"
    using returns_cases by blast
  have rest: "ioc_loop cb a base data =
     (concat (map (\<lambda>line. fst (process_search cb (ioc_query a line) base (translate a))
                @ log_nl (''--> '' @ strip line) []
                # report (strip line) ''ioc''
                    (result_of (process_search cb (ioc_query a line) base (translate a)))) data),
      Inr ())"
    using Cons.IH Cons.prems by simp
  show ?case
    using ioc_loop_step [OF ps, of data] rest ps by (simp add: result_of_def)
qed

lemma selects_report: "selects (report program source found) = []"
  by (simp add: report_def log_def log_nl_def)

lemma selects_log: "selects (log msg # es) = selects es" "selects (log_nl msg nl # es) = selects es"
  by (simp_all add: log_def log_nl_def)

lemma response_returns:
  assumes "snd (select (q @ base)) = None \<or> snd (select (q @ base)) = Some KeyboardInterrupt"
  shows "returns (process_search (CbEnterpriseResponseAPI select) q base tr)"
    and "result_of (process_search (CbEnterpriseResponseAPI select) q base tr) =
           r_tuple ` set (fst (select (q @ base)))"
  using assms response_search [of select q base "fst (select (q @ base))" "snd (select (q @ base))" tr]
  by (auto simp: returns_def result_of_def)


section \<open>What a search and a survey can do\<close>

lemma no_exit_bind: "no_exit m \<Longrightarrow> (\<And>x. no_exit (f x)) \<Longrightarrow> no_exit (bind m f)"
  by (cases m) (auto simp: no_exit_def snd_bind split: sum.splits)

lemma no_exit_return: "no_exit (es, Inr x)"
  by (simp add: no_exit_def)

lemma no_exit_raise: "no_exit (es, Inl (Raised e))"
  by (simp add: no_exit_def)

lemma no_exit_emit: "no_exit (emit es)"
  by (simp add: no_exit_def emit_def)

lemma events_bind:
  "list_all P (fst m) \<Longrightarrow> (\<And>x. list_all P (fst (f x))) \<Longrightarrow> list_all P (fst (bind m f))"
  by (cases m) (auto simp: fst_bind split: sum.splits)

lemma events_emit: "list_all P (fst (emit es)) = list_all P es"
  by (simp add: emit_def)

lemma survey_event_log: "survey_event (log msg)" "survey_event (log_nl msg nl)"
  by (simp_all add: log_def log_nl_def)

lemma search_event_log: "search_event (log msg)" "search_event (log_nl msg nl)"
  by (simp_all add: log_def log_nl_def)

lemma search_survey: "list_all search_event es \<Longrightarrow> list_all survey_event es"
  by (induction es) (auto elim: search_event.elims)

lemma search_no_rows: "list_all search_event es \<Longrightarrow> WriteRows rows \<notin> set es"
  by (induction es) auto

lemma collect_no_exit: "no_exit (collect tup select q base)"
  by (simp add: collect_def no_exit_def split: prod.splits option.splits exn.splits)

lemma collect_events: "list_all search_event (fst (collect tup select q base))"
  by (simp add: collect_def search_event_log split: prod.splits option.splits exn.splits)

lemma process_search_no_exit: "no_exit (process_search cb q base tr)"
proof (cases cb)
  case (CbEnterpriseResponseAPI select)
  then show ?thesis by (simp add: process_search_def collect_no_exit)
next
  case (CbThreatHunterAPI select convert_query)
  show ?thesis
  proof (cases "tr")
    case False
    then show ?thesis using CbThreatHunterAPI by (simp add: process_search_def collect_no_exit)
  next
    case True
    show ?thesis
    proof (cases "convert_query q")
      case (Inl e)
      then show ?thesis using CbThreatHunterAPI True
        by (cases e) (simp_all add: process_search_def no_exit_def)
    next
      case (Inr q')
      then show ?thesis using CbThreatHunterAPI True
        by (simp add: process_search_def no_exit_bind no_exit_emit collect_no_exit)
    qed
  qed
qed

lemma process_search_events: "list_all search_event (fst (process_search cb q base tr))"
proof (cases cb)
  case (CbEnterpriseResponseAPI select)
  then show ?thesis by (simp add: process_search_def collect_events)
next
  case (CbThreatHunterAPI select convert_query)
  show ?thesis
  proof (cases "tr")
    case False
    then show ?thesis using CbThreatHunterAPI by (simp add: process_search_def collect_events)
  next
    case True
    show ?thesis
    proof (cases "convert_query q")
      case (Inl e)
      then show ?thesis using CbThreatHunterAPI True
        by (cases e) (simp_all add: process_search_def search_event_log)
    next
      case (Inr q')
      then show ?thesis using CbThreatHunterAPI True
        by (simp add: process_search_def events_bind events_emit collect_events)
    qed
  qed
qed

lemma nested_loop_no_exit: "no_exit (nested_loop cb criteria base tr acc)"
proof (induction criteria arbitrary: acc)
  case Nil
  then show ?case by (simp add: no_exit_return)
next
  case (Cons item rest)
  then show ?case by (cases item) (simp add: no_exit_bind process_search_no_exit)
qed

lemma nested_loop_events: "list_all search_event (fst (nested_loop cb criteria base tr acc))"
proof (induction criteria arbitrary: acc)
  case Nil
  then show ?case by simp
next
  case (Cons item rest)
  then show ?case by (cases item) (simp add: events_bind process_search_events)
qed

lemma report_events: "list_all survey_event (report program source found)"
  by (simp add: report_def survey_event_log)

lemma ioc_loop_no_exit: "no_exit (ioc_loop cb a base data)"
  by (induction data) (simp_all add: no_exit_return no_exit_bind process_search_no_exit no_exit_emit)

lemma ioc_loop_events: "list_all survey_event (fst (ioc_loop cb a base data))"
  by (induction data)
     (simp_all add: events_bind events_emit search_survey [OF process_search_events] report_events survey_event_log)

lemma programs_loop_no_exit: "no_exit (programs_loop cb a base source programs)"
proof (induction programs)
  case Nil
  then show ?case by (simp add: no_exit_return)
next
  case (Cons item rest)
  then show ?case
    by (cases item)
       (simp add: no_exit_bind no_exit_emit nested_process_search_def nested_loop_no_exit)
qed

lemma programs_loop_events: "list_all survey_event (fst (programs_loop cb a base source programs))"
proof (induction programs)
  case Nil
  then show ?case by simp
next
  case (Cons item rest)
  then show ?case
    by (cases item)
       (simp add: events_bind events_emit nested_process_search_def search_survey [OF nested_loop_events]
          report_events survey_event_log)
qed

lemma files_loop_no_exit: "no_exit (files_loop env cb a base files)"
proof (induction files)
  case Nil
  then show ?case by (simp add: no_exit_return)
next
  case (Cons f rest)
  show ?case
  proof (cases "load_json env f")
    case (Inl e)
    then show ?thesis by (simp add: no_exit_bind no_exit_emit no_exit_raise)
  next
    case (Inr programs)
    then show ?thesis
      using Cons by (simp add: no_exit_bind no_exit_emit programs_loop_no_exit)
  qed
qed

lemma files_loop_events: "list_all survey_event (fst (files_loop env cb a base files))"
proof (induction files)
  case Nil
  then show ?case by simp
next
  case (Cons f rest)
  show ?case
  proof (cases "load_json env f")
    case (Inl e)
    then show ?thesis by (simp add: fst_bind emit_def survey_event_log)
  next
    case (Inr programs)
    then show ?thesis
      using Cons by (simp add: events_bind events_emit programs_loop_events survey_event_log)
  qed
qed

lemma run_query_no_exit: "no_exit (run_query cb a base)"
  by (simp add: run_query_def no_exit_bind no_exit_emit process_search_no_exit)

lemma run_query_events: "list_all survey_event (fst (run_query cb a base))"
  by (simp add: run_query_def events_bind events_emit search_survey [OF process_search_events] report_events
      survey_event_log)

lemma run_iocfile_no_exit: "no_exit (run_iocfile env cb a base)"
  by (cases "read_text env (the (iocfile a))")
     (simp_all add: run_iocfile_def no_exit_raise no_exit_bind no_exit_emit ioc_loop_no_exit)

lemma run_iocfile_events: "list_all survey_event (fst (run_iocfile env cb a base))"
  by (cases "read_text env (the (iocfile a))")
     (simp_all add: run_iocfile_def events_bind events_emit ioc_loop_events survey_event_log)

lemma survey_no_exit: "no_exit (survey env cb a base files)"
  by (simp add: survey_def run_query_no_exit run_iocfile_no_exit files_loop_no_exit)

lemma survey_events: "list_all survey_event (fst (survey env cb a base files))"
  by (simp add: survey_def run_query_events run_iocfile_events files_loop_events)


section \<open>The stages of main\<close>

lemma main_stopped: "prepare env a = (es, Inl s) \<Longrightarrow> main env a = (es, Inl s)"
  by (simp add: main_def bind_Inl)

lemma main_open_failed:
  "prepare env a = (es0, Inr (cb, base, files)) \<Longrightarrow> open_output env (output_filename a) = Some e \<Longrightarrow>
   main env a = (es0, Inl (Raised e))"
  by (simp add: main_def bind_def open_csv_def)

lemma connect_keys:
  "connect env a = (es, Inr (hk, uk, cb, b0)) \<Longrightarrow>
   hk = (if cbc a then ''device_name'' else ''hostname'')
   \<and> uk = (if cbc a then ''process_username'' else ''username'')
   \<and> is_cloud cb = cbc a"
  by (auto simp: connect_def bind_def split: if_splits sum.splits prod.splits)

lemma prepare_stages:
  assumes "prepare env a = (es, Inr (cb, base, files))"
  shows "\<not> (iocfile a \<noteq> None \<and> ioctype a = None)
    \<and> (\<exists>hk uk b0 b1. connect env a = ([], Inr (hk, uk, cb, b0))
          \<and> host_filter a hk b0 = ([], Inr b1)
          \<and> user_filter a uk b1 = ([], Inr base)
          \<and> definition_files env a = ([], Inr files))"
proof -
  have ioc: "\<not> (iocfile a \<noteq> None \<and> ioctype a = None)"
    using assms by (auto simp: prepare_def parser_error_def split: if_splits)
  obtain r where c: "connect env a = ([], r)" using connect_cases by blast
  show ?thesis
  proof (cases r)
    case (Inl s)
    then show ?thesis using assms ioc c by (auto simp: prepare_def bind_def)
  next
    case (Inr x)
    obtain hk uk cb' b0 where x: "x = (hk, uk, cb', b0)" by (cases x)
    consider b1 where "host_filter a hk b0 = ([], Inr b1)"
      | msg where "host_filter a hk b0 = ([Err msg], Inl (SystemExit 2))"
      using host_filter_cases by blast
    then show ?thesis
    proof cases
      case 2
      then show ?thesis using assms ioc c Inr x by (auto simp: prepare_def bind_def)
    next
      case 1
      consider b where "user_filter a uk b1 = ([], Inr b)"
        | msg where "user_filter a uk b1 = ([Err msg], Inl (SystemExit 2))"
        using user_filter_cases by blast
      then show ?thesis
      proof cases
        case 2
        then show ?thesis using assms ioc c Inr x 1 by (auto simp: prepare_def bind_def)
      next
        case u: 1
        consider fs where "definition_files env a = ([], Inr fs)"
          | msg where "definition_files env a = ([Err msg], Inl (SystemExit 1))"
          using definition_files_cases by blast
        then show ?thesis
          using assms ioc c Inr x 1 u by cases (auto simp: prepare_def bind_def)
      qed
    qed
  qed
qed


lemma main_rows:
  assumes "WriteRows rows \<in> set (fst (main env a))"
  shows "\<exists>cb base files. prepare env a = ([], Inr (cb, base, files))
           \<and> open_output env (output_filename a) = None
           \<and> WriteRows rows \<in> set (fst (survey env cb a base files))"
proof -
  from prepare_cases [of env a]
  consider r where "prepare env a = ([], r)"
    | msg n where "prepare env a = ([Err msg], Inl (SystemExit n))"
    by blast
  then show ?thesis
  proof cases
    case 2
    then show ?thesis using assms main_stopped [OF 2] by simp
  next
    case 1
    show ?thesis
    proof (cases r)
      case (Inl s)
      then show ?thesis using assms 1 main_stopped [of env a "[]" s] by simp
    next
      case (Inr x)
      obtain cb base files where x: "x = (cb, base, files)" by (cases x)
      have prep: "prepare env a = ([], Inr (cb, base, files))" using 1 Inr x by simp
      show ?thesis
      proof (cases "open_output env (output_filename a)")
        case (Some e)
        then show ?thesis using assms main_open_failed [OF prep Some] by simp
      next
        case None
        have "WriteRows rows \<in> set (fst (survey env cb a base files))"
          using assms main_prepared [OF prep None]
          by (auto simp: log_def log_nl_def split: sum.splits)
        then show ?thesis using prep None by blast
      qed
    qed
  qed
qed

section \<open>The rows written\<close>

lemma report_rows:
  "WriteRows rows \<in> set (report program source found) \<Longrightarrow> rows = row program source ` found"
  by (simp add: report_def log_def log_nl_def)

lemma row_columns:
  "r \<in> row program source ` found \<Longrightarrow> length r = 6 \<and> r ! 4 = program \<and> r ! 5 = source"
  by (auto simp: row_def)

lemma ioc_loop_rows:
  "WriteRows rows \<in> set (fst (ioc_loop cb a base data)) \<Longrightarrow>
   \<exists>line \<in> set data. \<exists>found.
     snd (process_search cb (ioc_query a line) base (translate a)) = Inr found
     \<and> rows = row (strip line) ''ioc'' ` found"
proof (induction data)
  case Nil
  then show ?case by simp
next
  case (Cons line data)
  obtain es r where ps: "process_search cb (ioc_query a line) base (translate a) = (es, r)"
    by (cases "process_search cb (ioc_query a line) base (translate a)")
  have no_rows: "WriteRows rows \<notin> set es"
    using process_search_events [of cb "ioc_query a line" base "translate a"] ps
    by (simp add: search_no_rows)
  show ?case
  proof (cases r)
    case (Inl s)
    then show ?thesis using Cons.prems ps no_rows by (simp add: bind_Inl)
  next
    case (Inr found)
    from Cons.prems have "WriteRows rows \<in> set (report (strip line) ''ioc'' found)
        \<or> WriteRows rows \<in> set (fst (ioc_loop cb a base data))"
      using ioc_loop_step [of cb a line base es found data] ps Inr no_rows
      by (auto simp: log_nl_def)
    then show ?thesis
    proof
      assume "WriteRows rows \<in> set (report (strip line) ''ioc'' found)"
      then have "rows = row (strip line) ''ioc'' ` found" by (rule report_rows)
      then show ?thesis using ps Inr by auto
    next
      assume "WriteRows rows \<in> set (fst (ioc_loop cb a base data))"
      then show ?thesis using Cons.IH by auto
    qed
  qed
qed

lemma nested_process_search_events:
  "list_all search_event (fst (nested_process_search cb criteria base tr))"
  by (simp add: nested_process_search_def nested_loop_events)

lemma programs_loop_rows:
  "WriteRows rows \<in> set (fst (programs_loop cb a base source programs)) \<Longrightarrow>
   \<exists>(program, criteria) \<in> set programs. \<exists>found.
     snd (nested_process_search cb criteria base (translate a)) = Inr found
     \<and> rows = row program source ` found"
proof (induction programs)
  case Nil
  then show ?case by simp
next
  case (Cons item programs)
  obtain program criteria where item: "item = (program, criteria)" by (cases item)
  obtain es r where ps: "nested_process_search cb criteria base (translate a) = (es, r)"
    by (cases "nested_process_search cb criteria base (translate a)")
  have no_rows: "WriteRows rows \<notin> set es"
    using nested_process_search_events [of cb criteria base "translate a"] ps
    by (simp add: search_no_rows)
  show ?case
  proof (cases r)
    case (Inl s)
    then show ?thesis
      using Cons.prems ps no_rows item by (simp add: bind_Inl fst_bind emit_def log_nl_def)
  next
    case (Inr found)
    from Cons.prems have "WriteRows rows \<in> set (report program source found)
        \<or> WriteRows rows \<in> set (fst (programs_loop cb a base source programs))"
      using programs_loop_step [of cb criteria base a es found source program programs]
        ps Inr no_rows item
      by (auto simp: log_nl_def)
    then show ?thesis
    proof
      assume "WriteRows rows \<in> set (report program source found)"
      then have "rows = row program source ` found" by (rule report_rows)
      then show ?thesis using ps Inr item by auto
    next
      assume "WriteRows rows \<in> set (fst (programs_loop cb a base source programs))"
      then show ?thesis using Cons.IH by auto
    qed
  qed
qed

lemma files_loop_rows:
  "WriteRows rows \<in> set (fst (files_loop env cb a base files)) \<Longrightarrow>
   \<exists>definition_file \<in> set files. \<exists>programs. load_json env definition_file = Inr programs
     \<and> (\<exists>(program, criteria) \<in> set programs. \<exists>found.
           snd (nested_process_search cb criteria base (translate a)) = Inr found
           \<and> rows = row program (source_label definition_file) ` found)"
proof (induction files)
  case Nil
  then show ?case by simp
next
  case (Cons f files)
  show ?case
  proof (cases "load_json env f")
    case (Inl e)
    then show ?thesis using Cons.prems by (simp add: fst_bind emit_def log_def log_nl_def)
  next
    case (Inr programs)
    from Cons.prems have
      "WriteRows rows \<in> set (fst (programs_loop cb a base (source_label f) programs))
       \<or> WriteRows rows \<in> set (fst (files_loop env cb a base files))"
      using Inr by (auto simp: fst_bind emit_def log_def log_nl_def split: sum.splits)
    then show ?thesis
    proof
      assume "WriteRows rows \<in> set (fst (programs_loop cb a base (source_label f) programs))"
      from programs_loop_rows [OF this] show ?thesis using Inr by auto
    next
      assume "WriteRows rows \<in> set (fst (files_loop env cb a base files))"
      then show ?thesis using Cons.IH by auto
    qed
  qed
qed

lemma run_query_rows:
  "WriteRows rows \<in> set (fst (run_query cb a base)) \<Longrightarrow>
   \<exists>found. snd (process_search cb (the (query a)) base (translate a)) = Inr found
     \<and> rows = row (the (query a)) ''query'' ` found"
proof -
  assume w: "WriteRows rows \<in> set (fst (run_query cb a base))"
  obtain es r where ps: "process_search cb (the (query a)) base (translate a) = (es, r)"
    by (cases "process_search cb (the (query a)) base (translate a)")
  have no_rows: "WriteRows rows \<notin> set es"
    using process_search_events [of cb "the (query a)" base "translate a"] ps
    by (simp add: search_no_rows)
  show ?thesis
  proof (cases r)
    case (Inl s)
    then show ?thesis using w ps no_rows by (simp add: run_query_def fst_bind emit_def log_nl_def)
  next
    case (Inr found)
    then have "WriteRows rows \<in> set (report (the (query a)) ''query'' found)"
      using w ps no_rows by (simp add: run_query_def fst_bind emit_def log_nl_def)
    then show ?thesis using report_rows ps Inr by auto
  qed
qed

section \<open>Batches whose searches all return\<close>

lemma nested_process_search_returns:
  "(\<And>F ts. (F, ts) \<in> set criteria \<Longrightarrow> returns (process_search cb (field_query F ts) base tr)) \<Longrightarrow>
   returns (nested_process_search cb criteria base tr)"
  using nested_loop_returns [of criteria cb base tr "{}"]
  by (simp add: nested_process_search_def returns_def)

lemma programs_loop_returns:
  "(\<And>program criteria. (program, criteria) \<in> set programs \<Longrightarrow>
      returns (nested_process_search cb criteria base (translate a))) \<Longrightarrow>
   programs_loop cb a base source programs =
     (concat (map (\<lambda>(program, criteria).
        log_nl (''--> '' @ program) []
        # fst (nested_process_search cb criteria base (translate a))
        @ report program source (result_of (nested_process_search cb criteria base (translate a))))
        programs),
      Inr ())"
proof (induction programs)
  case Nil
  then show ?case by simp
next
  case (Cons item programs)
  obtain program criteria where item: "item = (program, criteria)" by (cases item)
  have "returns (nested_process_search cb criteria base (translate a))"
    using Cons.prems item by auto
  then obtain es found where
    ps: "nested_process_search cb criteria base (translate a) = (es, Inr found)"
    using returns_cases by blast
  have rest: "programs_loop cb a base source programs =
     (concat (map (\<lambda>(program, criteria).
        log_nl (''--> '' @ program) []
        # fst (nested_process_search cb criteria base (translate a))
        @ report program source (result_of (nested_process_search cb criteria base (translate a))))
        programs),
      Inr ())"
    by (rule Cons.IH) (use Cons.prems in auto)
  show ?case
    using programs_loop_step [OF ps, of source program programs] rest ps item
    by (simp add: result_of_def)
qed

lemma files_loop_step:
  "load_json env f = Inr programs \<Longrightarrow>
   programs_loop cb a base (source_label f) programs = (es, Inr ()) \<Longrightarrow>
   files_loop env cb a base (f # files) =
     (log (''Processing definition file: '' @ f) # es @ fst (files_loop env cb a base files),
      snd (files_loop env cb a base files))"
  by (cases "files_loop env cb a base files") (simp add: bind_def emit_def)

lemma files_loop_returns:
  assumes "\<And>f. f \<in> set files \<Longrightarrow> load_json env f = Inr (loaded env f)"
    and "\<And>f program criteria. f \<in> set files \<Longrightarrow> (program, criteria) \<in> set (loaded env f) \<Longrightarrow>
           returns (nested_process_search cb criteria base (translate a))"
  shows "files_loop env cb a base files =
     (concat (map (\<lambda>f. log (''Processing definition file: '' @ f)
        # concat (map (\<lambda>(program, criteria).
            log_nl (''--> '' @ program) []
            # fst (nested_process_search cb criteria base (translate a))
            @ report program (source_label f)
                (result_of (nested_process_search cb criteria base (translate a))))
            (loaded env f))) files),
      Inr ())"
  using assms
proof (induction files)
  case Nil
  then show ?case by simp
next
  case (Cons f files)
  have l: "load_json env f = Inr (loaded env f)" using Cons.prems(1) by simp
  have p: "programs_loop cb a base (source_label f) (loaded env f) =
     (concat (map (\<lambda>(program, criteria).
        log_nl (''--> '' @ program) []
        # fst (nested_process_search cb criteria base (translate a))
        @ report program (source_label f)
            (result_of (nested_process_search cb criteria base (translate a))))
        (loaded env f)),
      Inr ())"
    by (rule programs_loop_returns) (use Cons.prems(2) in auto)
  have rest: "files_loop env cb a base files =
     (concat (map (\<lambda>f. log (''Processing definition file: '' @ f)
        # concat (map (\<lambda>(program, criteria).
            log_nl (''--> '' @ program) []
            # fst (nested_process_search cb criteria base (translate a))
            @ report program (source_label f)
                (result_of (nested_process_search cb criteria base (translate a))))
            (loaded env f))) files),
      Inr ())"
    by (rule Cons.IH) (use Cons.prems in auto)
  show ?case
    using files_loop_step [OF l p, of files] rest by simp
qed

lemma collect_returns:
  "returns (collect tup select q base) = completes (select (q @ base))"
  "completes (select (q @ base)) \<Longrightarrow>
     result_of (collect tup select q base) = tup ` set (fst (select (q @ base)))"
  by (auto simp: collect_def returns_def result_of_def completes_def add_all_eq
      split: prod.splits option.splits exn.splits)

lemma collect_not_interrupt: "snd (collect tup select q base) \<noteq> Inl (Raised KeyboardInterrupt)"
  by (simp add: collect_def split: prod.splits option.splits exn.splits)

lemma process_search_not_interrupt:
  "snd (process_search cb q base tr) \<noteq> Inl (Raised KeyboardInterrupt)"
proof (cases cb)
  case (CbEnterpriseResponseAPI select)
  then show ?thesis by (simp add: process_search_def collect_not_interrupt)
next
  case (CbThreatHunterAPI select convert_query)
  show ?thesis
  proof (cases "tr")
    case False
    then show ?thesis using CbThreatHunterAPI by (simp add: process_search_def collect_not_interrupt)
  next
    case True
    show ?thesis
    proof (cases "convert_query q")
      case (Inl e)
      then show ?thesis using CbThreatHunterAPI True
        by (cases e) (simp_all add: process_search_def)
    next
      case (Inr q')
      then show ?thesis using CbThreatHunterAPI True
        by (simp add: process_search_def snd_bind emit_def collect_not_interrupt)
    qed
  qed
qed

section \<open>Example runs\<close>

lemma interrupted_once_run:
  "prepare env_interrupted_once args_ioc =
     ([], Inr (CbEnterpriseResponseAPI select_interrupted_once, [], []))"
  "main env_interrupted_once args_ioc =
     ([OpenOutput ''survey.csv'', WriteRow header, log ''Processing IOC file: iocs.txt'',
       Select ''ipaddr:1.2.3.4'', log ctrl_c_msg, log_nl ''--> 1.2.3.4'' [], log '': 1 results'',
       WriteRows {[''ws-01'', ''alice'', ''c:/windows/cmd.exe'', ''cmd.exe /c dir'', ''1.2.3.4'', ''ioc'']},
       Select ''ipaddr:5.6.7.8'', log_nl ''--> 5.6.7.8'' [], log '': 1 results'',
       WriteRows {[''ws-01'', ''alice'', ''c:/windows/cmd.exe'', ''cmd.exe /c dir'', ''5.6.7.8'', ''ioc'']},
       CloseOutput, log ([CHR 0x0A] @ ''Results saved: survey.csv'')],
      Inr ())"
  by (simp_all add: main_defs example_defs string_defs search_defs)


lemma blank_line_run:
  "prepare env_ioc args_ioc = ([], Inr (CbEnterpriseResponseAPI (\<lambda>q. ([], None)), [], []))"
  "main env_ioc args_ioc =
     ([OpenOutput ''survey.csv'', WriteRow header, log ''Processing IOC file: iocs.txt'',
       Select ''ipaddr:1.2.3.4'', log_nl ''--> 1.2.3.4'' [], log '': 0 results'', WriteRows {},
       Select ''ipaddr:'', log_nl ''--> '' [], log '': 0 results'', WriteRows {},
       Select ''ipaddr:5.6.7.8'', log_nl ''--> 5.6.7.8'' [], log '': 0 results'', WriteRows {},
       CloseOutput, log ([CHR 0x0A] @ ''Results saved: survey.csv'')],
      Inr ())"
  by (simp_all add: main_defs example_defs string_defs search_defs)

lemma browsers_run:
  "prepare env_browsers (no_args\<lparr>deffile := Some ''defs/browsers.json''\<rparr>) =
     ([], Inr (CbEnterpriseResponseAPI select_two, [], [''defs/browsers.json'']))"
  "main env_browsers (no_args\<lparr>deffile := Some ''defs/browsers.json''\<rparr>) =
     ([OpenOutput ''survey.csv'', WriteRow header,
       log ''Processing definition file: defs/browsers.json'', log_nl ''--> chrome'' [],
       Select ''(process_name:chrome.exe)'', log '': 1 results'',
       WriteRows {[''ws-01'', ''alice'', ''c:/windows/cmd.exe'', ''cmd.exe /c dir'', ''chrome'', ''browsers'']},
       CloseOutput, log ([CHR 0x0A] @ ''Results saved: survey.csv'')],
      Inr ())"
  by (simp_all add: main_defs example_defs string_defs search_defs)

lemma query_run:
  "prepare env_two (no_args\<lparr>query := Some ''process_name:cmd.exe''\<rparr>) =
     ([], Inr (CbEnterpriseResponseAPI select_two, [], []))"
  "main env_two (no_args\<lparr>query := Some ''process_name:cmd.exe''\<rparr>) =
     ([OpenOutput ''survey.csv'', WriteRow header, log_nl ''Processing query'' [],
       Select ''process_name:cmd.exe'', log '': 1 results'',
       WriteRows {[''ws-01'', ''alice'', ''c:/windows/cmd.exe'', ''cmd.exe /c dir'',
                   ''process_name:cmd.exe'', ''query'']},
       CloseOutput, log ([CHR 0x0A] @ ''Results saved: survey.csv'')],
      Inr ())"
  by (simp_all add: main_defs example_defs string_defs search_defs)

lemma two_programs_run:
  "prepare env_two_programs (no_args\<lparr>deffile := Some ''defs/browsers.json''\<rparr>) =
     ([], Inr (CbEnterpriseResponseAPI select_chrome_interrupted, [], [''defs/browsers.json'']))"
  "main env_two_programs (no_args\<lparr>deffile := Some ''defs/browsers.json''\<rparr>) =
     ([OpenOutput ''survey.csv'', WriteRow header,
       log ''Processing definition file: defs/browsers.json'',
       log_nl ''--> chrome'' [], Select ''(process_name:chrome.exe)'', log ctrl_c_msg,
       log '': 1 results'',
       WriteRows {[''ws-01'', ''alice'', ''c:/windows/cmd.exe'', ''cmd.exe /c dir'', ''chrome'', ''browsers'']},
       log_nl ''--> firefox'' [], Select ''(process_name:firefox.exe)'', log '': 1 results'',
       WriteRows {[''ws-01'', ''alice'', ''c:/windows/cmd.exe'', ''cmd.exe /c dir'', ''firefox'', ''browsers'']},
       CloseOutput, log ([CHR 0x0A] @ ''Results saved: survey.csv'')],
      Inr ())"
  by (simp_all add: main_defs example_defs string_defs search_defs)

section \<open>Queries built from a criteria group\<close>

text \<open>
  C1. For a search field \<open>F\<close> with the terms \<open>t, ts\<close> (a non-empty list), the query built
  is one parenthesised clause: the atoms \<open>F:term\<close> in the order of the terms, with
  \<open>OR\<close> between them. When every search of a criteria group returns,
  \<open>nested_process_search\<close> runs exactly one \<open>process_search\<close> for each field, in order,
  each with the query of that field alone and the shared \<open>query_base\<close>, and returns the
  union of the result sets of the fields. Unless the query is translated for the cloud
  backend, the query strings sent are the field queries with \<open>query_base\<close> appended, one
  for each field.
\<close>

theorem one_query_per_field:
  "field_query F (t # ts) =
     ''('' @ F @ '':'' @ t @ concat (map (\<lambda>u. '' OR '' @ F @ '':'' @ u) ts) @ '')''
   \<and> ((\<forall>(G, us) \<in> set criteria. returns (process_search cb (field_query G us) base tr)) \<longrightarrow>
        nested_process_search cb criteria base tr =
          (concat (map (\<lambda>(G, us). fst (process_search cb (field_query G us) base tr)) criteria),
           Inr (\<Union>(G, us) \<in> set criteria. result_of (process_search cb (field_query G us) base tr)))
        \<and> (\<not> (tr \<and> is_cloud cb) \<longrightarrow>
             selects (fst (nested_process_search cb criteria base tr)) =
               map (\<lambda>(G, us). field_query G us @ base) criteria))"
proof -
  have form: "field_query F (t # ts) =
     ''('' @ F @ '':'' @ t @ concat (map (\<lambda>u. '' OR '' @ F @ '':'' @ u) ts) @ '')''"
    by (simp add: field_query_def str_join_Cons comp_def)
  have run: "nested_process_search cb criteria base tr =
          (concat (map (\<lambda>(G, us). fst (process_search cb (field_query G us) base tr)) criteria),
           Inr (\<Union>(G, us) \<in> set criteria. result_of (process_search cb (field_query G us) base tr)))"
    if "\<forall>(G, us) \<in> set criteria. returns (process_search cb (field_query G us) base tr)"
    using that nested_loop_returns [of criteria cb base tr "{}"]
    by (auto simp: nested_process_search_def)
  have sel: "selects (concat (map (\<lambda>(G, us). fst (process_search cb (field_query G us) base tr)) criteria)) =
               map (\<lambda>(G, us). field_query G us @ base) criteria"
    if "\<not> (tr \<and> is_cloud cb)"
    using that by (induction criteria) (auto simp: selects_append selects_process_search)
  show ?thesis using form run sel by simp
qed

lemma search_two:
  "process_search (CbEnterpriseResponseAPI select_two) q base tr =
     ([Select (q @ base)], Inr {(''ws-01'', ''alice'', ''c:/windows/cmd.exe'', ''cmd.exe /c dir'')})"
  by (simp add: process_search_def collect_def select_two_def r_tuple_def proc_upper_def
      proc_lower_def lower_examples)

theorem one_query_per_field_witness:
  "field_query ''md5'' [''a1'', ''b2'', ''c3''] = ''(md5:a1 OR md5:b2 OR md5:c3)''
   \<and> returns (process_search (CbEnterpriseResponseAPI select_two)
        (field_query ''md5'' [''a1'', ''b2'']) '' start:-5m'' False)
   \<and> returns (process_search (CbEnterpriseResponseAPI select_two)
        (field_query ''path'' [''cmd.exe'']) '' start:-5m'' False)
   \<and> nested_process_search (CbEnterpriseResponseAPI select_two)
        [(''md5'', [''a1'', ''b2'']), (''path'', [''cmd.exe''])] '' start:-5m'' False =
       ([Select ''(md5:a1 OR md5:b2) start:-5m'', Select ''(path:cmd.exe) start:-5m''],
        Inr {(''ws-01'', ''alice'', ''c:/windows/cmd.exe'', ''cmd.exe /c dir'')})
   \<and> selects (fst (nested_process_search (CbEnterpriseResponseAPI select_two)
        [(''md5'', [''a1'', ''b2'']), (''path'', [''cmd.exe''])] '' start:-5m'' False)) =
       [''(md5:a1 OR md5:b2) start:-5m'', ''(path:cmd.exe) start:-5m'']"
proof -
  have h: "\<forall>(G, us) \<in> set [(''md5'', [''a1'', ''b2'']), (''path'', [''cmd.exe''])].
             returns (process_search (CbEnterpriseResponseAPI select_two) (field_query G us) '' start:-5m'' False)"
    by (simp add: returns_def search_two)
  show ?thesis
    using h one_query_per_field [of "''md5''" "''a1''" "[''b2'', ''c3'']"
        "[(''md5'', [''a1'', ''b2'']), (''path'', [''cmd.exe''])]"
        "CbEnterpriseResponseAPI select_two" "'' start:-5m''" False]
    by (simp add: returns_def result_of_def search_two field_query_def)
qed

section \<open>Result sets\<close>



section \<open>The time window\<close>

text \<open>
  C3, as the claim states it, fails: with \<open>--days 1 --minutes 5\<close> the flag given last is
  \<open>--minutes\<close>, yet the window is the one of one day (1440 minutes), not the window
  \<open>--minutes 5\<close> alone gives.
\<close>

theorem last_time_flag_does_not_win:
  "time_window_response (parse_time_options [Opt_days 1, Opt_minutes 5] no_args) = '' start:-1440m''
   \<and> time_window_response (parse_time_options [Opt_minutes 5] no_args) = '' start:-5m''
   \<and> time_window_response (parse_time_options [Opt_days 1, Opt_minutes 5] no_args)
       \<noteq> time_window_response (parse_time_options [Opt_minutes 5] no_args)"
  by (simp add: parse_time_options_def no_args_def time_window_response_def string_defs)

text \<open>
  C3, amended. Whatever the order and number of the \<open>--days\<close> and \<open>--minutes\<close> flags on
  the command line: when the value stored for \<open>--days\<close> is not zero, the time window is
  the one derived from it, on both backends; the value of \<open>--minutes\<close> is used only when
  \<open>--days\<close> is absent or zero.
\<close>

theorem days_take_precedence:
  "(days (parse_time_options opts a0) = Some d \<and> d \<noteq> 0 \<longrightarrow>
      time_window_response (parse_time_options opts a0) = '' start:-'' @ str_int (d * 1440) @ ''m''
      \<and> time_window_cbc env (parse_time_options opts a0) =
          (case start_time_text env (Timedelta_days d) of
             Inl e \<Rightarrow> ([], Inl (Raised e))
           | Inr start_time \<Rightarrow> ([], Inr ('' process_start_time:['' @ start_time @ '' TO *]''))))
   \<and> ((days (parse_time_options opts a0) = None \<or> days (parse_time_options opts a0) = Some 0)
       \<and> minutes (parse_time_options opts a0) = Some m \<and> m \<noteq> 0 \<longrightarrow>
      time_window_response (parse_time_options opts a0) = '' start:-'' @ str_int m @ ''m''
      \<and> time_window_cbc env (parse_time_options opts a0) =
          (case start_time_text env (Timedelta_minutes m) of
             Inl e \<Rightarrow> ([], Inl (Raised e))
           | Inr start_time \<Rightarrow> ([], Inr ('' process_start_time:['' @ start_time @ '' TO *]''))))"
  by (auto simp: time_window_response_def time_window_cbc_def truthy_int_def)

theorem days_take_precedence_witness:
  "days (parse_time_options [Opt_minutes 5, Opt_days 2, Opt_minutes 7] no_args) = Some 2
   \<and> (2::int) \<noteq> 0
   \<and> time_window_response (parse_time_options [Opt_minutes 5, Opt_days 2, Opt_minutes 7] no_args)
       = '' start:-2880m''
   \<and> time_window_cbc quiet_env (parse_time_options [Opt_minutes 5, Opt_days 2, Opt_minutes 7] no_args)
       = ([], Inr '' process_start_time:[2020-01-01T00:00:00.000000Z TO *]'')
   \<and> days (parse_time_options [Opt_days 0, Opt_minutes 7] no_args) = Some 0
   \<and> minutes (parse_time_options [Opt_days 0, Opt_minutes 7] no_args) = Some 7
   \<and> time_window_response (parse_time_options [Opt_days 0, Opt_minutes 7] no_args) = '' start:-7m''"
  using days_take_precedence [of "[Opt_minutes 5, Opt_days 2, Opt_minutes 7]" no_args 2 quiet_env 7]
    days_take_precedence [of "[Opt_days 0, Opt_minutes 7]" no_args 2 quiet_env 7]
  by (simp add: parse_time_options_def no_args_def quiet_env_def string_defs)

section \<open>Translation\<close>

text \<open>
  C4. On the cloud backend with translation requested, \<open>process_search\<close> first hands the
  query as given to \<open>convert_query\<close> and then sends the translated query with
  \<open>query_base\<close> appended. When \<open>convert_query\<close> raises \<open>ServerError\<close>, the search logs the
  message, sends nothing to the backend and returns the empty set; the loop of
  \<open>nested_process_search\<close> and the loop over an indicator file then go on with the next
  query, the accumulated results unchanged.
\<close>

theorem translation_failure_skips_query:
  "(convert q = Inr q' \<longrightarrow>
      take 2 (fst (process_search (CbThreatHunterAPI select convert) q base True)) =
        [ConvertQuery q, Select (q' @ base)]
      \<and> selects (fst (process_search (CbThreatHunterAPI select convert) q base True)) = [q' @ base])
   \<and> (convert q = Inl ServerError \<longrightarrow>
      process_search (CbThreatHunterAPI select convert) q base True =
        ([ConvertQuery q, log (cant_convert_msg q)], Inr {}))
   \<and> (convert (field_query F ts) = Inl ServerError \<longrightarrow>
      nested_loop (CbThreatHunterAPI select convert) ((F, ts) # rest) base True acc =
        ([ConvertQuery (field_query F ts), log (cant_convert_msg (field_query F ts))]
           @ fst (nested_loop (CbThreatHunterAPI select convert) rest base True acc),
         snd (nested_loop (CbThreatHunterAPI select convert) rest base True acc)))
   \<and> (translate a \<and> convert (ioc_query a line) = Inl ServerError \<longrightarrow>
      ioc_loop (CbThreatHunterAPI select convert) a base (line # data) =
        ([ConvertQuery (ioc_query a line),
          log (cant_convert_msg (ioc_query a line)),
          log_nl (''--> '' @ strip line) []] @ report (strip line) ''ioc'' {}
           @ fst (ioc_loop (CbThreatHunterAPI select convert) a base data),
         snd (ioc_loop (CbThreatHunterAPI select convert) a base data)))"
proof (intro conjI impI)
  assume c: "convert q = Inr q'"
  have ps: "fst (process_search (CbThreatHunterAPI select convert) q base True) =
              ConvertQuery q # fst (collect th_tuple select q' base)"
    using c by (simp add: process_search_def fst_bind emit_def)
  have hd: "take 1 (fst (collect th_tuple select q' base)) = [Select (q' @ base)]"
    by (simp add: collect_def split: prod.splits option.splits exn.splits)
  show "take 2 (fst (process_search (CbThreatHunterAPI select convert) q base True)) =
        [ConvertQuery q, Select (q' @ base)]"
    using hd by (simp add: ps numeral_2_eq_2)
  show "selects (fst (process_search (CbThreatHunterAPI select convert) q base True)) = [q' @ base]"
    by (simp add: ps selects_collect)
next
  assume "convert q = Inl ServerError"
  then show "process_search (CbThreatHunterAPI select convert) q base True =
        ([ConvertQuery q, log (cant_convert_msg q)], Inr {})"
    by (simp add: process_search_def)
next
  assume "convert (field_query F ts) = Inl ServerError"
  then have "process_search (CbThreatHunterAPI select convert) (field_query F ts) base True =
        ([ConvertQuery (field_query F ts), log (cant_convert_msg (field_query F ts))], Inr {})"
    by (simp add: process_search_def)
  from nested_loop_step [OF this]
  show "nested_loop (CbThreatHunterAPI select convert) ((F, ts) # rest) base True acc =
        ([ConvertQuery (field_query F ts), log (cant_convert_msg (field_query F ts))]
           @ fst (nested_loop (CbThreatHunterAPI select convert) rest base True acc),
         snd (nested_loop (CbThreatHunterAPI select convert) rest base True acc))"
    by simp
next
  assume a: "translate a \<and> convert (ioc_query a line) = Inl ServerError"
  then have "process_search (CbThreatHunterAPI select convert)
               (ioc_query a line) base (translate a) =
        ([ConvertQuery (ioc_query a line),
          log (cant_convert_msg (ioc_query a line))], Inr {})"
    by (simp add: process_search_def)
  from ioc_loop_step [OF this]
  show "ioc_loop (CbThreatHunterAPI select convert) a base (line # data) =
        ([ConvertQuery (ioc_query a line),
          log (cant_convert_msg (ioc_query a line)),
          log_nl (''--> '' @ strip line) []] @ report (strip line) ''ioc'' {}
           @ fst (ioc_loop (CbThreatHunterAPI select convert) a base data),
         snd (ioc_loop (CbThreatHunterAPI select convert) a base data))"
    by simp
qed

theorem translation_failure_skips_query_witness:
  "convert_failing ''md5:a1'' = Inl ServerError
   \<and> process_search (CbThreatHunterAPI th_select_two convert_failing) ''md5:a1'' '' device_name:h1'' True =
       ([ConvertQuery ''md5:a1'', log (cant_convert_msg ''md5:a1'')], Inr {})
   \<and> convert_failing (field_query ''md5'' [''a1'']) = Inl ServerError
   \<and> nested_process_search (CbThreatHunterAPI th_select_two convert_failing)
        [(''md5'', [''a1'']), (''md5'', [''b2''])] '' device_name:h1'' True =
       ([ConvertQuery ''(md5:a1)'', log (cant_convert_msg ''(md5:a1)''),
         ConvertQuery ''(md5:b2)'', log (cant_convert_msg ''(md5:b2)'')], Inr {})
   \<and> translate (args_ioc\<lparr>translate := True\<rparr>)
   \<and> snd (ioc_loop (CbThreatHunterAPI th_select_two convert_failing) (args_ioc\<lparr>translate := True\<rparr>)
        '' device_name:h1'' [''1.2.3.4'', ''5.6.7.8'']) = Inr ()
   \<and> selects (fst (ioc_loop (CbThreatHunterAPI th_select_two convert_failing)
        (args_ioc\<lparr>translate := True\<rparr>) '' device_name:h1'' [''1.2.3.4'', ''5.6.7.8''])) = []
   \<and> Inr ''device_name:x'' = (Inr ''device_name:x'' :: exn + string)
   \<and> take 2 (fst (process_search (CbThreatHunterAPI th_select_two Inr) ''device_name:x'' '' device_name:h1'' True)) =
       [ConvertQuery ''device_name:x'', Select ''device_name:x device_name:h1'']"
  using translation_failure_skips_query [of convert_failing "''md5:a1''" "''md5:a1''" th_select_two
      "'' device_name:h1''" "''md5''" "[''a1'']" "[(''md5'', [''b2''])]" "{}"
      "args_ioc\<lparr>translate := True\<rparr>" "''1.2.3.4''" "[''5.6.7.8'']"]
    translation_failure_skips_query [of Inr "''device_name:x''" "''device_name:x''" th_select_two
      "'' device_name:h1''" "''md5''" "[''a1'']" "[(''md5'', [''b2''])]" "{}"
      "args_ioc\<lparr>translate := True\<rparr>" "''1.2.3.4''" "[''5.6.7.8'']"]
  by (simp add: convert_failing_def nested_process_search_def field_query_def process_search_def
      args_ioc_def no_args_def str_opt_def ioc_query_def strip_def is_space_def bind_def emit_def
      log_def log_nl_def report_def collect_def th_select_two_def)

section \<open>Interruption\<close>

text \<open>
  C5. \<open>process_search\<close> never lets a \<open>KeyboardInterrupt\<close> out, on either backend and with
  or without translation. When the iteration over the records of a query is interrupted,
  it logs the interruption and returns the tuples of the records yielded before it; a
  search on the on-premises backend returns exactly when its iteration ends or is
  interrupted, and then its result set is the set of tuples of the records yielded; so
  does a search on the cloud backend, without translation or for a query that was
  translated. After
  a search that returned, whatever the backend, the loop of \<open>nested_process_search\<close>, the
  loop over an indicator file, the loop over the programs of a definition file and the
  loop over the definition files go on with what remains. A run over an indicator file
  and a run over definition files in which every search returns (so also when searches
  are interrupted) consist of the events of all searches in order, each followed by its
  count and its rows; the output file is closed and the status is 0.
\<close>

theorem interrupt_keeps_partial_results:
  "snd (process_search cb q base tr) \<noteq> Inl (Raised KeyboardInterrupt)
   \<and> (select (q @ base) = (procs, Some KeyboardInterrupt) \<longrightarrow>
      process_search (CbEnterpriseResponseAPI select) q base tr =
        ([Select (q @ base), log ctrl_c_msg], Inr (r_tuple ` set procs)))
   \<and> (th_select (q @ base) = (th_procs, Some KeyboardInterrupt) \<longrightarrow>
      process_search (CbThreatHunterAPI th_select convert) q base False =
        ([Select (q @ base), log ctrl_c_msg], Inr (th_tuple ` set th_procs)))
   \<and> (convert q = Inr q' \<and> th_select (q' @ base) = (th_procs, Some KeyboardInterrupt) \<longrightarrow>
      process_search (CbThreatHunterAPI th_select convert) q base True =
        ([ConvertQuery q, Select (q' @ base), log ctrl_c_msg], Inr (th_tuple ` set th_procs)))
   \<and> returns (process_search (CbEnterpriseResponseAPI select) q base tr) = completes (select (q @ base))
   \<and> (completes (select (q @ base)) \<longrightarrow>
      result_of (process_search (CbEnterpriseResponseAPI select) q base tr) =
        r_tuple ` set (fst (select (q @ base))))
   \<and> returns (process_search (CbThreatHunterAPI th_select convert) q base False) =
       completes (th_select (q @ base))
   \<and> (convert q = Inr q' \<longrightarrow>
      returns (process_search (CbThreatHunterAPI th_select convert) q base True) =
        completes (th_select (q' @ base)))
   \<and> (process_search cb (field_query F ts) base tr = (es, Inr found) \<longrightarrow>
      nested_loop cb ((F, ts) # rest) base tr acc =
        (es @ fst (nested_loop cb rest base tr (acc \<union> found)),
         snd (nested_loop cb rest base tr (acc \<union> found))))
   \<and> (process_search cb (ioc_query a line) base (translate a) = (es, Inr found) \<longrightarrow>
      ioc_loop cb a base (line # data) =
        (es @ log_nl (''--> '' @ strip line) [] # report (strip line) ''ioc'' found
            @ fst (ioc_loop cb a base data),
         snd (ioc_loop cb a base data)))
   \<and> (nested_process_search cb criteria base (translate a) = (es, Inr found) \<longrightarrow>
      programs_loop cb a base source ((program, criteria) # programs) =
        (log_nl (''--> '' @ program) [] # es @ report program source found
            @ fst (programs_loop cb a base source programs),
         snd (programs_loop cb a base source programs)))
   \<and> (load_json env f = Inr programs
       \<and> programs_loop cb a base (source_label f) programs = (es, Inr ()) \<longrightarrow>
      files_loop env cb a base (f # files) =
        (log (''Processing definition file: '' @ f) # es @ fst (files_loop env cb a base files),
         snd (files_loop env cb a base files)))
   \<and> (prepare env a = (pre, Inr (cb, base, files))
       \<and> open_output env (output_filename a) = None
       \<and> query a = None \<and> iocfile a = Some f \<and> f \<noteq> [] \<and> read_text env f = Inr body
       \<and> (\<forall>line \<in> set (readlines body).
             returns (process_search cb (ioc_query a line) base (translate a))) \<longrightarrow>
      main env a =
        ([OpenOutput (output_filename a), WriteRow header, log (''Processing IOC file: '' @ f)]
           @ concat (map (\<lambda>line. fst (process_search cb (ioc_query a line) base (translate a))
                @ log_nl (''--> '' @ strip line) []
                # report (strip line) ''ioc''
                    (result_of (process_search cb (ioc_query a line) base (translate a))))
              (readlines body))
           @ [CloseOutput, log ([CHR 0x0A] @ ''Results saved: '' @ output_filename a)],
         Inr ())
      \<and> exit_status (main env a) = 0)
   \<and> (prepare env a = (pre, Inr (cb, base, files))
       \<and> open_output env (output_filename a) = None
       \<and> \<not> truthy (query a) \<and> \<not> truthy (iocfile a)
       \<and> (\<forall>f \<in> set files. load_json env f = Inr (loaded env f)
             \<and> (\<forall>(program, criteria) \<in> set (loaded env f). \<forall>(F, ts) \<in> set criteria.
                   returns (process_search cb (field_query F ts) base (translate a)))) \<longrightarrow>
      main env a =
        ([OpenOutput (output_filename a), WriteRow header]
           @ concat (map (\<lambda>f. log (''Processing definition file: '' @ f)
                # concat (map (\<lambda>(program, criteria).
                    log_nl (''--> '' @ program) []
                    # fst (nested_process_search cb criteria base (translate a))
                    @ report program (source_label f)
                        (result_of (nested_process_search cb criteria base (translate a))))
                    (loaded env f))) files)
           @ [CloseOutput, log ([CHR 0x0A] @ ''Results saved: '' @ output_filename a)],
         Inr ())
      \<and> exit_status (main env a) = 0)"
proof (intro conjI impI)
  show "snd (process_search cb q base tr) \<noteq> Inl (Raised KeyboardInterrupt)"
    by (rule process_search_not_interrupt)
next
  assume "select (q @ base) = (procs, Some KeyboardInterrupt)"
  then show "process_search (CbEnterpriseResponseAPI select) q base tr =
        ([Select (q @ base), log ctrl_c_msg], Inr (r_tuple ` set procs))"
    using response_search [of select q base procs "Some KeyboardInterrupt" tr] by simp
next
  assume "th_select (q @ base) = (th_procs, Some KeyboardInterrupt)"
  then show "process_search (CbThreatHunterAPI th_select convert) q base False =
        ([Select (q @ base), log ctrl_c_msg], Inr (th_tuple ` set th_procs))"
    using cloud_search [of th_select q base th_procs "Some KeyboardInterrupt" convert] by simp
next
  assume "convert q = Inr q' \<and> th_select (q' @ base) = (th_procs, Some KeyboardInterrupt)"
  then show "process_search (CbThreatHunterAPI th_select convert) q base True =
        ([ConvertQuery q, Select (q' @ base), log ctrl_c_msg], Inr (th_tuple ` set th_procs))"
    by (simp add: process_search_def collect_def bind_def emit_def add_all_eq)
next
  show "returns (process_search (CbEnterpriseResponseAPI select) q base tr) = completes (select (q @ base))"
    by (simp add: process_search_def collect_returns)
next
  assume "completes (select (q @ base))"
  then show "result_of (process_search (CbEnterpriseResponseAPI select) q base tr) =
        r_tuple ` set (fst (select (q @ base)))"
    by (simp add: process_search_def collect_returns)
next
  show "returns (process_search (CbThreatHunterAPI th_select convert) q base False) =
       completes (th_select (q @ base))"
    by (simp add: process_search_def collect_returns)
next
  assume "convert q = Inr q'"
  moreover have "returns (bind (emit [ConvertQuery q]) (\<lambda>_. collect th_tuple th_select q' base)) =
      returns (collect th_tuple th_select q' base)"
    by (simp add: bind_def emit_def returns_def split: prod.splits sum.splits)
  ultimately show "returns (process_search (CbThreatHunterAPI th_select convert) q base True) =
        completes (th_select (q' @ base))"
    by (simp add: process_search_def collect_returns)
next
  assume "process_search cb (field_query F ts) base tr = (es, Inr found)"
  then show "nested_loop cb ((F, ts) # rest) base tr acc =
        (es @ fst (nested_loop cb rest base tr (acc \<union> found)),
         snd (nested_loop cb rest base tr (acc \<union> found)))"
    by (rule nested_loop_step)
next
  assume "process_search cb (ioc_query a line) base (translate a) = (es, Inr found)"
  then show "ioc_loop cb a base (line # data) =
        (es @ log_nl (''--> '' @ strip line) [] # report (strip line) ''ioc'' found
            @ fst (ioc_loop cb a base data),
         snd (ioc_loop cb a base data))"
    by (rule ioc_loop_step)
next
  assume "nested_process_search cb criteria base (translate a) = (es, Inr found)"
  then show "programs_loop cb a base source ((program, criteria) # programs) =
        (log_nl (''--> '' @ program) [] # es @ report program source found
            @ fst (programs_loop cb a base source programs),
         snd (programs_loop cb a base source programs))"
    by (rule programs_loop_step)
next
  assume "load_json env f = Inr programs
       \<and> programs_loop cb a base (source_label f) programs = (es, Inr ())"
  then show "files_loop env cb a base (f # files) =
        (log (''Processing definition file: '' @ f) # es @ fst (files_loop env cb a base files),
         snd (files_loop env cb a base files))"
    using files_loop_step [of env f programs cb a base es files] by blast
next
  assume h: "prepare env a = (pre, Inr (cb, base, files))
       \<and> open_output env (output_filename a) = None
       \<and> query a = None \<and> iocfile a = Some f \<and> f \<noteq> [] \<and> read_text env f = Inr body
       \<and> (\<forall>line \<in> set (readlines body).
             returns (process_search cb (ioc_query a line) base (translate a)))"
  let ?per = "\<lambda>line. fst (process_search cb (ioc_query a line) base (translate a))
                @ log_nl (''--> '' @ strip line) []
                # report (strip line) ''ioc''
                    (result_of (process_search cb (ioc_query a line) base (translate a)))"
  have pre: "pre = []" using h prepare_returns by blast
  have loop: "ioc_loop cb a base (readlines body) = (concat (map ?per (readlines body)), Inr ())"
    by (rule ioc_loop_returns) (use h in blast)
  have survey: "survey env cb a base files =
      (log (''Processing IOC file: '' @ f) # concat (map ?per (readlines body)), Inr ())"
    using h loop by (simp add: survey_def run_iocfile_def truthy_def bind_def emit_def)
  show main: "main env a =
      ([OpenOutput (output_filename a), WriteRow header, log (''Processing IOC file: '' @ f)]
         @ concat (map ?per (readlines body))
         @ [CloseOutput, log ([CHR 0x0A] @ ''Results saved: '' @ output_filename a)], Inr ())"
    using main_prepared [of env a pre cb base files] h survey pre by simp
  show "exit_status (main env a) = 0" by (simp add: main exit_status_def)
next
  assume h: "prepare env a = (pre, Inr (cb, base, files))
       \<and> open_output env (output_filename a) = None
       \<and> \<not> truthy (query a) \<and> \<not> truthy (iocfile a)
       \<and> (\<forall>f \<in> set files. load_json env f = Inr (loaded env f)
             \<and> (\<forall>(program, criteria) \<in> set (loaded env f). \<forall>(F, ts) \<in> set criteria.
                   returns (process_search cb (field_query F ts) base (translate a))))"
  let ?per = "\<lambda>f. log (''Processing definition file: '' @ f)
                # concat (map (\<lambda>(program, criteria).
                    log_nl (''--> '' @ program) []
                    # fst (nested_process_search cb criteria base (translate a))
                    @ report program (source_label f)
                        (result_of (nested_process_search cb criteria base (translate a))))
                    (loaded env f))"
  have pre: "pre = []" using h prepare_returns by blast
  have loads: "load_json env f = Inr (loaded env f)" if "f \<in> set files" for f
    using h that by blast
  have ok: "returns (nested_process_search cb criteria base (translate a))"
    if "f \<in> set files" "(program, criteria) \<in> set (loaded env f)" for f program criteria
  proof (rule nested_process_search_returns)
    fix F ts
    assume "(F, ts) \<in> set criteria"
    then show "returns (process_search cb (field_query F ts) base (translate a))"
      using h that by fastforce
  qed
  have loop: "files_loop env cb a base files = (concat (map ?per files), Inr ())"
    by (rule files_loop_returns) (use loads ok in blast)+
  have survey: "survey env cb a base files = (concat (map ?per files), Inr ())"
    using h loop by (simp add: survey_def)
  show main: "main env a =
      ([OpenOutput (output_filename a), WriteRow header] @ concat (map ?per files)
         @ [CloseOutput, log ([CHR 0x0A] @ ''Results saved: '' @ output_filename a)], Inr ())"
    using main_prepared [of env a pre cb base files] h survey pre by simp
  show "exit_status (main env a) = 0" by (simp add: main exit_status_def)
qed


theorem interrupt_keeps_partial_results_witness:
  "select_interrupted (''md5:a1'' @ '' start:-5m'') = ([proc_upper], Some KeyboardInterrupt)
   \<and> process_search (CbEnterpriseResponseAPI select_interrupted) ''md5:a1'' '' start:-5m'' False =
       ([Select ''md5:a1 start:-5m'', log ctrl_c_msg],
        Inr {(''ws-01'', ''alice'', ''c:/windows/cmd.exe'', ''cmd.exe /c dir'')})
   \<and> completes (select_interrupted (''md5:a1'' @ '' start:-5m''))
   \<and> th_select_interrupted (''md5:a1'' @ '' start:-5m'') = ([th_upper], Some KeyboardInterrupt)
   \<and> process_search (CbThreatHunterAPI th_select_interrupted Inr) ''md5:a1'' '' start:-5m'' False =
       ([Select ''md5:a1 start:-5m'', log ctrl_c_msg],
        Inr {(''ws-01'', ''alice'', ''c:/windows/cmd.exe'', ''None'')})
   \<and> process_search (CbThreatHunterAPI th_select_interrupted Inr) ''md5:a1'' '' start:-5m'' True =
       ([ConvertQuery ''md5:a1'', Select ''md5:a1 start:-5m'', log ctrl_c_msg],
        Inr {(''ws-01'', ''alice'', ''c:/windows/cmd.exe'', ''None'')})
   \<and> selects (fst (nested_loop (CbEnterpriseResponseAPI select_interrupted)
         [(''md5'', [''a1'']), (''md5'', [''b2''])] '' start:-5m'' False {})) =
       [''(md5:a1) start:-5m'', ''(md5:b2) start:-5m'']
   \<and> selects (fst (ioc_loop (CbEnterpriseResponseAPI select_interrupted) args_ioc '' start:-5m''
         [''1.2.3.4'', ''5.6.7.8''])) = [''ipaddr:1.2.3.4 start:-5m'', ''ipaddr:5.6.7.8 start:-5m'']
   \<and> selects (fst (programs_loop (CbEnterpriseResponseAPI select_interrupted) args_ioc '' start:-5m''
         ''browsers'' [(''chrome'', [(''md5'', [''a1''])]), (''firefox'', [(''md5'', [''b2''])])])) =
       [''(md5:a1) start:-5m'', ''(md5:b2) start:-5m'']
   \<and> prepare env_interrupted_once args_ioc =
       ([], Inr (CbEnterpriseResponseAPI select_interrupted_once, [], []))
   \<and> open_output env_interrupted_once (output_filename args_ioc) = None
   \<and> query args_ioc = None \<and> iocfile args_ioc = Some ''iocs.txt''
   \<and> read_text env_interrupted_once ''iocs.txt'' = Inr (''1.2.3.4'' @ [CHR 0x0A] @ ''5.6.7.8'' @ [CHR 0x0A])
   \<and> readlines (''1.2.3.4'' @ [CHR 0x0A] @ ''5.6.7.8'' @ [CHR 0x0A]) =
       [''1.2.3.4'' @ [CHR 0x0A], ''5.6.7.8'' @ [CHR 0x0A]]
   \<and> snd (select_interrupted_once (ioc_query args_ioc (''1.2.3.4'' @ [CHR 0x0A]) @ [])) = Some KeyboardInterrupt
   \<and> snd (select_interrupted_once (ioc_query args_ioc (''5.6.7.8'' @ [CHR 0x0A]) @ [])) = None
   \<and> snd (main env_interrupted_once args_ioc) = Inr ()
   \<and> exit_status (main env_interrupted_once args_ioc) = 0
   \<and> selects (fst (main env_interrupted_once args_ioc)) = [''ipaddr:1.2.3.4'', ''ipaddr:5.6.7.8'']
   \<and> WriteRows {[''ws-01'', ''alice'', ''c:/windows/cmd.exe'', ''cmd.exe /c dir'', ''1.2.3.4'', ''ioc'']}
       \<in> set (fst (main env_interrupted_once args_ioc))
   \<and> prepare env_two_programs (no_args\<lparr>deffile := Some ''defs/browsers.json''\<rparr>) =
       ([], Inr (CbEnterpriseResponseAPI select_chrome_interrupted, [], [''defs/browsers.json'']))
   \<and> load_json env_two_programs ''defs/browsers.json'' = Inr (loaded env_two_programs ''defs/browsers.json'')
   \<and> loaded env_two_programs ''defs/browsers.json'' =
       [(''chrome'', [(''process_name'', [''chrome.exe''])]),
        (''firefox'', [(''process_name'', [''firefox.exe''])])]
   \<and> select_chrome_interrupted (field_query ''process_name'' [''chrome.exe''] @ []) =
       ([proc_upper], Some KeyboardInterrupt)
   \<and> select_chrome_interrupted (field_query ''process_name'' [''firefox.exe''] @ []) =
       ([proc_lower], None)
   \<and> snd (main env_two_programs (no_args\<lparr>deffile := Some ''defs/browsers.json''\<rparr>)) = Inr ()
   \<and> exit_status (main env_two_programs (no_args\<lparr>deffile := Some ''defs/browsers.json''\<rparr>)) = 0
   \<and> selects (fst (main env_two_programs (no_args\<lparr>deffile := Some ''defs/browsers.json''\<rparr>))) =
       [''(process_name:chrome.exe)'', ''(process_name:firefox.exe)'']
   \<and> WriteRows {[''ws-01'', ''alice'', ''c:/windows/cmd.exe'', ''cmd.exe /c dir'', ''chrome'', ''browsers'']}
       \<in> set (fst (main env_two_programs (no_args\<lparr>deffile := Some ''defs/browsers.json''\<rparr>)))
   \<and> WriteRows {[''ws-01'', ''alice'', ''c:/windows/cmd.exe'', ''cmd.exe /c dir'', ''firefox'', ''browsers'']}
       \<in> set (fst (main env_two_programs (no_args\<lparr>deffile := Some ''defs/browsers.json''\<rparr>)))
   \<and> CloseOutput \<in> set (fst (main env_two_programs (no_args\<lparr>deffile := Some ''defs/browsers.json''\<rparr>)))"
proof -
  have ex:
    "\<And>q. select_interrupted q = ([proc_upper], Some KeyboardInterrupt)"
    "\<And>q. th_select_interrupted q = ([th_upper], Some KeyboardInterrupt)"
    "select_interrupted_once ''ipaddr:1.2.3.4'' = ([proc_upper], Some KeyboardInterrupt)"
    "select_interrupted_once ''ipaddr:5.6.7.8'' = ([proc_lower], None)"
    "select_chrome_interrupted ''(process_name:chrome.exe)'' = ([proc_upper], Some KeyboardInterrupt)"
    "select_chrome_interrupted ''(process_name:firefox.exe)'' = ([proc_lower], None)"
    "r_tuple proc_upper = (''ws-01'', ''alice'', ''c:/windows/cmd.exe'', ''cmd.exe /c dir'')"
    "r_tuple proc_lower = (''ws-01'', ''alice'', ''c:/windows/cmd.exe'', ''cmd.exe /c dir'')"
    "th_tuple th_upper = (''ws-01'', ''alice'', ''c:/windows/cmd.exe'', ''None'')"
    "\<And>l. ioc_query args_ioc l = ''ipaddr:'' @ strip l"
    "translate args_ioc = False" "query args_ioc = None" "iocfile args_ioc = Some ''iocs.txt''"
    "output_filename args_ioc = ''survey.csv''"
    "\<And>f. open_output env_interrupted_once f = None"
    "\<And>p. read_text env_interrupted_once p = Inr (''1.2.3.4'' @ [CHR 0x0A] @ ''5.6.7.8'' @ [CHR 0x0A])"
    "\<And>f. open_output env_two_programs f = None"
    "\<And>p. load_json env_two_programs p =
       Inr [(''chrome'', [(''process_name'', [''chrome.exe''])]),
            (''firefox'', [(''process_name'', [''firefox.exe''])])]"
    "\<And>p. loaded env_two_programs p =
       [(''chrome'', [(''process_name'', [''chrome.exe''])]),
        (''firefox'', [(''process_name'', [''firefox.exe''])])]"
    by (simp_all add: example_defs string_defs r_tuple_def th_tuple_def ioc_query_def
        output_filename_def loaded_def)
  note inst1 = interrupt_keeps_partial_results [where cb = "CbEnterpriseResponseAPI select_interrupted"
      and q = "''md5:a1''" and base = "'' start:-5m''" and tr = False and select = select_interrupted
      and procs = "[proc_upper]" and th_select = th_select_interrupted and th_procs = "[th_upper]"
      and convert = Inr and q' = "''md5:a1''" and F = "''md5''" and ts = "[''a1'']"
      and es = "[Select ''(md5:a1) start:-5m'', log ctrl_c_msg]"
      and found = "{(''ws-01'', ''alice'', ''c:/windows/cmd.exe'', ''cmd.exe /c dir'')}"
      and rest = "[(''md5'', [''b2''])]" and acc = "{}" and a = args_ioc and line = "''1.2.3.4''"
      and data = "[''5.6.7.8'']" and criteria = "[(''md5'', [''a1''])]" and source = "''browsers''"
      and program = "''chrome''" and programs = "[(''firefox'', [(''md5'', [''b2''])])]"
      and env = env_interrupted_once and f = "''iocs.txt''" and files = "[]" and pre = "[]"
      and body = "''1.2.3.4'' @ [CHR 0x0A] @ ''5.6.7.8'' @ [CHR 0x0A]"]
  note inst2 = interrupt_keeps_partial_results [where cb = "CbEnterpriseResponseAPI select_interrupted_once"
      and q = "''md5:a1''" and base = "[]" and tr = False and select = select_interrupted
      and procs = "[proc_upper]" and th_select = th_select_interrupted and th_procs = "[th_upper]"
      and convert = Inr and q' = "''md5:a1''" and F = "''md5''" and ts = "[''a1'']"
      and es = "[]" and found = "{}"
      and rest = "[]" and acc = "{}" and a = args_ioc and line = "''1.2.3.4''"
      and data = "[]" and criteria = "[]" and source = "''browsers''"
      and program = "''chrome''" and programs = "[]"
      and env = env_interrupted_once and f = "''iocs.txt''" and files = "[]" and pre = "[]"
      and body = "''1.2.3.4'' @ [CHR 0x0A] @ ''5.6.7.8'' @ [CHR 0x0A]"]
  note inst3 = interrupt_keeps_partial_results [where cb = "CbEnterpriseResponseAPI select_chrome_interrupted"
      and q = "''md5:a1''" and base = "[]" and tr = False and select = select_interrupted
      and procs = "[proc_upper]" and th_select = th_select_interrupted and th_procs = "[th_upper]"
      and convert = Inr and q' = "''md5:a1''" and F = "''md5''" and ts = "[''a1'']"
      and es = "[]" and found = "{}"
      and rest = "[]" and acc = "{}"
      and a = "no_args\<lparr>deffile := Some ''defs/browsers.json''\<rparr>" and line = "''1.2.3.4''"
      and data = "[]" and criteria = "[]" and source = "''browsers''"
      and program = "''chrome''" and programs = "[]"
      and env = env_two_programs and f = "''iocs.txt''" and files = "[''defs/browsers.json'']"
      and pre = "[]" and body = "[]"]
  show ?thesis
    using inst1 inst2 inst3
    by (simp add: ex interrupted_once_run two_programs_run process_search_def collect_def
        field_query_def nested_process_search_def bind_def emit_def readlines_def strip_def
        is_space_def exit_status_def report_def log_def log_nl_def completes_def no_args_simps
        truthy_def)
qed

section \<open>Validation\<close>

text \<open>
  C6, as the claim states it, fails. The tests of \<open>main\<close> are truth tests (\<open>if args.deffile:\<close>,
  \<open>elif args.defdir:\<close>, \<open>if args.hostname:\<close>, \<open>if args.username:\<close>), and the empty string is
  not true. With \<open>--deffile ''\<close> the path given is the empty path, which does not exist, yet
  \<open>os.path.exists\<close> is never asked: the run opens \<open>survey.csv\<close>, writes the header, closes the
  file and ends with status 0. The same holds for \<open>--defdir ''\<close>. With \<open>--hostname ''\<close> and a
  \<open>--query\<close> in which \<open>hostname\<close> occurs there is no error either: the output file is opened and
  the query is sent.
\<close>

theorem empty_path_is_not_checked:
  "\<not> path_exists env_no_paths ''''
   \<and> main env_no_paths (no_args\<lparr>deffile := Some ''''\<rparr>) =
       ([OpenOutput ''survey.csv'', WriteRow header, CloseOutput,
         log ([CHR 0x0A] @ ''Results saved: survey.csv'')], Inr ())
   \<and> exit_status (main env_no_paths (no_args\<lparr>deffile := Some ''''\<rparr>)) = 0
   \<and> filter output_event (fst (main env_no_paths (no_args\<lparr>deffile := Some ''''\<rparr>))) =
       [OpenOutput ''survey.csv'', WriteRow header, CloseOutput]
   \<and> main env_no_paths (no_args\<lparr>defdir := Some ''''\<rparr>) =
       ([OpenOutput ''survey.csv'', WriteRow header, CloseOutput,
         log ([CHR 0x0A] @ ''Results saved: survey.csv'')], Inr ())
   \<and> exit_status (main env_no_paths (no_args\<lparr>defdir := Some ''''\<rparr>)) = 0
   \<and> contains ''hostname:h1'' ''hostname''
   \<and> exit_status (main quiet_env (no_args\<lparr>query := Some ''hostname:h1'', hostname := Some ''''\<rparr>)) = 0
   \<and> filter output_event
         (fst (main quiet_env (no_args\<lparr>query := Some ''hostname:h1'', hostname := Some ''''\<rparr>))) =
       [OpenOutput ''survey.csv'', WriteRow header, WriteRows {}, CloseOutput]
   \<and> selects (fst (main quiet_env (no_args\<lparr>query := Some ''hostname:h1'', hostname := Some ''''\<rparr>))) =
       [''hostname:h1'']"
  by (simp add: main_defs search_defs string_defs no_args_simps quiet_env_simps env_no_paths_def)

text \<open>
  C6, amended. Every run that ends through a validation exit (\<open>parser.error\<close> or \<open>sys.exit(1)\<close>)
  ends with a status other than 0, has not opened or written the output file and has
  sent nothing to the backend. The validation exits are taken in each of the situations
  named, an option counting as given when its value is not the empty string, as the truth
  tests of the code have it: \<open>--iocfile\<close> without \<open>--ioctype\<close>; a non-empty \<open>--hostname\<close> or
  \<open>--username\<close> together with a \<open>--query\<close> in which the host or user field name of the backend
  occurs; a non-empty \<open>--deffile\<close> path that does not exist, or, without \<open>--deffile\<close>, a
  non-empty \<open>--defdir\<close> path that does not exist. In all these runs the status is not
  0, the output file is untouched and no query was sent (also when the connection to the
  backend fails before the check is reached).
\<close>

theorem validation_errors_stop_before_output:
  "(\<exists>n. snd (main env a) = Inl (SystemExit n))
   \<or> (iocfile a \<noteq> None \<and> ioctype a = None)
   \<or> (hostname a = Some h \<and> h \<noteq> [] \<and> query a = Some q
       \<and> contains q (if cbc a then ''device_name'' else ''hostname''))
   \<or> (username a = Some u \<and> u \<noteq> [] \<and> query a = Some q
       \<and> contains q (if cbc a then ''process_username'' else ''username''))
   \<or> (deffile a = Some p \<and> p \<noteq> [] \<and> \<not> path_exists env p)
   \<or> (deffile a = None \<and> defdir a = Some p \<and> p \<noteq> [] \<and> \<not> path_exists env p)
   \<longrightarrow> exit_status (main env a) \<noteq> 0
       \<and> filter output_event (fst (main env a)) = []
       \<and> filter backend_event (fst (main env a)) = []"
proof
  assume trigger: "(\<exists>n. snd (main env a) = Inl (SystemExit n))
   \<or> (iocfile a \<noteq> None \<and> ioctype a = None)
   \<or> (hostname a = Some h \<and> h \<noteq> [] \<and> query a = Some q
       \<and> contains q (if cbc a then ''device_name'' else ''hostname''))
   \<or> (username a = Some u \<and> u \<noteq> [] \<and> query a = Some q
       \<and> contains q (if cbc a then ''process_username'' else ''username''))
   \<or> (deffile a = Some p \<and> p \<noteq> [] \<and> \<not> path_exists env p)
   \<or> (deffile a = None \<and> defdir a = Some p \<and> p \<noteq> [] \<and> \<not> path_exists env p)"
  have stopped: "\<exists>es s. prepare env a = (es, Inl s)"
  proof (rule ccontr)
    assume "\<not> (\<exists>es s. prepare env a = (es, Inl s))"
    then obtain es cb base files where prep: "prepare env a = (es, Inr (cb, base, files))"
      by (cases "prepare env a"; cases "snd (prepare env a)") auto
    from prepare_stages [OF prep] obtain hk uk b0 b1 where
      ioc: "\<not> (iocfile a \<noteq> None \<and> ioctype a = None)"
      and c: "connect env a = ([], Inr (hk, uk, cb, b0))"
      and hf: "host_filter a hk b0 = ([], Inr b1)"
      and uf: "user_filter a uk b1 = ([], Inr base)"
      and df: "definition_files env a = ([], Inr files)"
      by blast
    have keys: "hk = (if cbc a then ''device_name'' else ''hostname'')"
      "uk = (if cbc a then ''process_username'' else ''username'')"
      using connect_keys [OF c] by simp_all
    have es: "es = []" using prep prepare_returns by blast
    have no_sys: "\<not> (\<exists>n. snd (main env a) = Inl (SystemExit n))"
    proof (cases "open_output env (output_filename a)")
      case (Some e)
      then show ?thesis using main_open_failed [OF prep Some] by simp
    next
      case None
      show ?thesis
        using main_prepared [OF prep None] survey_no_exit [of env cb a base files]
        by (auto simp: no_exit_def split: sum.splits)
    qed
    have no_host: "\<not> (hostname a = Some h \<and> h \<noteq> [] \<and> query a = Some q
       \<and> contains q (if cbc a then ''device_name'' else ''hostname''))"
      using hf keys by (cases q) (auto simp: host_filter_def parser_error_def truthy_def split: if_splits)
    have no_user: "\<not> (username a = Some u \<and> u \<noteq> [] \<and> query a = Some q
       \<and> contains q (if cbc a then ''process_username'' else ''username''))"
      using uf keys by (cases q) (auto simp: user_filter_def parser_error_def truthy_def split: if_splits)
    have no_deffile: "\<not> (deffile a = Some p \<and> p \<noteq> [] \<and> \<not> path_exists env p)"
      using df by (auto simp: definition_files_def truthy_def split: if_splits)
    have no_defdir: "\<not> (deffile a = None \<and> defdir a = Some p \<and> p \<noteq> [] \<and> \<not> path_exists env p)"
      using df by (auto simp: definition_files_def truthy_def split: if_splits)
    show False
      using trigger ioc no_sys no_host no_user no_deffile no_defdir by blast
  qed
  then obtain es s where prep: "prepare env a = (es, Inl s)" by blast
  have m: "main env a = (es, Inl s)" using prep by (rule main_stopped)
  from prepare_cases [of env a] prep
  consider "es = []" "\<forall>n. s \<noteq> SystemExit n"
    | msg where "es = [Err msg]" "s = SystemExit 2"
    | msg where "es = [Err msg]" "s = SystemExit 1"
    by auto
  then show "exit_status (main env a) \<noteq> 0
       \<and> filter output_event (fst (main env a)) = []
       \<and> filter backend_event (fst (main env a)) = []"
  proof cases
    case 1
    then show ?thesis by (cases s) (simp_all add: m exit_status_def split: exn.splits)
  next
    case 2
    then show ?thesis by (simp add: m exit_status_def)
  next
    case 3
    then show ?thesis by (simp add: m exit_status_def)
  qed
qed


lemma no_paths: "path_exists env_no_paths p = False"
  by (simp add: env_no_paths_def)

lemma validation_runs:
  "main quiet_env (no_args\<lparr>iocfile := Some ''iocs.txt''\<rparr>) =
     ([Err ''--iocfile requires --ioctype''], Inl (SystemExit 2))"
  "fst (main quiet_env (no_args\<lparr>query := Some ''parent_hostname:x'', hostname := Some ''h1''\<rparr>)) =
     [Err (''Cannot use --hostname with '' @ [CHR 0x22] @ ''hostname:'' @ [CHR 0x22] @ '' (in query)'')]"
  "snd (main quiet_env (no_args\<lparr>query := Some ''parent_hostname:x'', hostname := Some ''h1''\<rparr>)) =
     Inl (SystemExit 2)"
  "fst (main quiet_env (no_args\<lparr>cbc := True, query := Some ''process_username:bob'',
          username := Some ''bob''\<rparr>)) =
     [Err (''Cannot use --username with '' @ [CHR 0x22] @ ''process_username:'' @ [CHR 0x22]
           @ '' (in query)'')]"
  "snd (main quiet_env (no_args\<lparr>cbc := True, query := Some ''process_username:bob'',
          username := Some ''bob''\<rparr>)) = Inl (SystemExit 2)"
  "main env_no_paths (no_args\<lparr>deffile := Some ''defs/browsers.json''\<rparr>) =
     ([Err ''ERROR: deffile does not exist''], Inl (SystemExit 1))"
  "main env_no_paths (no_args\<lparr>defdir := Some ''defs''\<rparr>) =
     ([Err ''ERROR: defdir does not exist''], Inl (SystemExit 1))"
  by (simp_all add: main_def prepare_def connect_def host_filter_def user_filter_def
      definition_files_def time_window_response_def time_window_cbc_def parser_error_def err_def
      conflict_msg_def       bind_def truthy_def truthy_int_def no_args_simps quiet_env_simps env_no_paths_def)

theorem validation_errors_stop_before_output_witness:
  "iocfile (no_args\<lparr>iocfile := Some ''iocs.txt''\<rparr>) \<noteq> None
   \<and> ioctype (no_args\<lparr>iocfile := Some ''iocs.txt''\<rparr>) = None
   \<and> exit_status (main quiet_env (no_args\<lparr>iocfile := Some ''iocs.txt''\<rparr>)) = 2
   \<and> filter output_event (fst (main quiet_env (no_args\<lparr>iocfile := Some ''iocs.txt''\<rparr>))) = []
   \<and> filter backend_event (fst (main quiet_env (no_args\<lparr>iocfile := Some ''iocs.txt''\<rparr>))) = []
   \<and> contains ''parent_hostname:x'' ''hostname''
   \<and> exit_status (main quiet_env (no_args\<lparr>query := Some ''parent_hostname:x'', hostname := Some ''h1''\<rparr>)) = 2
   \<and> filter output_event
        (fst (main quiet_env (no_args\<lparr>query := Some ''parent_hostname:x'', hostname := Some ''h1''\<rparr>))) = []
   \<and> filter backend_event
        (fst (main quiet_env (no_args\<lparr>query := Some ''parent_hostname:x'', hostname := Some ''h1''\<rparr>))) = []
   \<and> contains ''process_username:bob'' ''process_username''
   \<and> exit_status (main quiet_env (no_args\<lparr>cbc := True, query := Some ''process_username:bob'',
        username := Some ''bob''\<rparr>)) = 2
   \<and> filter output_event (fst (main quiet_env (no_args\<lparr>cbc := True, query := Some ''process_username:bob'',
        username := Some ''bob''\<rparr>))) = []
   \<and> \<not> path_exists env_no_paths ''defs/browsers.json''
   \<and> exit_status (main env_no_paths (no_args\<lparr>deffile := Some ''defs/browsers.json''\<rparr>)) = 1
   \<and> filter output_event (fst (main env_no_paths (no_args\<lparr>deffile := Some ''defs/browsers.json''\<rparr>))) = []
   \<and> filter backend_event (fst (main env_no_paths (no_args\<lparr>deffile := Some ''defs/browsers.json''\<rparr>))) = []
   \<and> \<not> path_exists env_no_paths ''defs''
   \<and> exit_status (main env_no_paths (no_args\<lparr>defdir := Some ''defs''\<rparr>)) = 1
   \<and> filter output_event (fst (main env_no_paths (no_args\<lparr>defdir := Some ''defs''\<rparr>))) = []"
  using validation_errors_stop_before_output [of quiet_env "no_args\<lparr>iocfile := Some ''iocs.txt''\<rparr>"
      "''h1''" "''q''" "''u''" "''p''"]
    validation_errors_stop_before_output [of quiet_env
      "no_args\<lparr>query := Some ''parent_hostname:x'', hostname := Some ''h1''\<rparr>"
      "''h1''" "''parent_hostname:x''" "''u''" "''p''"]
    validation_errors_stop_before_output [of quiet_env
      "no_args\<lparr>cbc := True, query := Some ''process_username:bob'', username := Some ''bob''\<rparr>"
      "''h1''" "''process_username:bob''" "''bob''" "''p''"]
    validation_errors_stop_before_output [of env_no_paths
      "no_args\<lparr>deffile := Some ''defs/browsers.json''\<rparr>" "''h1''" "''q''" "''u''" "''defs/browsers.json''"]
    validation_errors_stop_before_output [of env_no_paths
      "no_args\<lparr>defdir := Some ''defs''\<rparr>" "''h1''" "''q''" "''u''" "''defs''"]
  by (simp add: validation_runs exit_status_def no_args_simps no_paths)

section \<open>Indicator files\<close>

text \<open>
  C7, as the claim states it, fails: a line that is empty after trimming is queried too.
  The file \<open>1.2.3.4\n\n5.6.7.8\<close> has two trimmed lines that are not empty, and the run
  sends three queries, one of them \<open>ipaddr:\<close> with no indicator.
\<close>

theorem blank_line_is_queried:
  "nonempty_trimmed_lines ioc_text = [''1.2.3.4'', ''5.6.7.8'']
   \<and> selects (fst (main env_ioc args_ioc)) = [''ipaddr:1.2.3.4'', ''ipaddr:'', ''ipaddr:5.6.7.8'']
   \<and> length (selects (fst (main env_ioc args_ioc))) \<noteq> length (nonempty_trimmed_lines ioc_text)"
  by (simp add: nonempty_trimmed_lines_def main_defs example_defs string_defs search_defs)

text \<open>
  C7, amended. In indicator-file mode every line of the file, empty or not, gives exactly
  one search, for the query made of the indicator type, a colon and the trimmed line: when
  every search returns, the
  run consists of the events of these searches, in the order of the lines, each followed
  by its count and its rows, and unless the query is translated for the cloud backend
  the queries sent are these queries with \<open>query_base\<close> appended, one for each line. Every
  set of rows written in this mode, in any run, belongs to one line of the file: it is the
  result set of the search for that line, each row with the trimmed line in the program
  column and \<open>ioc\<close> in the source column.
\<close>

theorem every_line_is_queried:
  "ioc_query a line = str_opt (ioctype a) @ '':'' @ strip line
   \<and> (prepare env a = (es0, Inr (cb, base, files))
       \<and> open_output env (output_filename a) = None
       \<and> query a = None \<and> iocfile a = Some f \<and> f \<noteq> [] \<and> read_text env f = Inr text
       \<and> (\<forall>line \<in> set (readlines text).
             returns (process_search cb (ioc_query a line) base (translate a))) \<longrightarrow>
      main env a =
        ([OpenOutput (output_filename a), WriteRow header, log (''Processing IOC file: '' @ f)]
           @ concat (map (\<lambda>line. fst (process_search cb (ioc_query a line) base (translate a))
                @ log_nl (''--> '' @ strip line) []
                # report (strip line) ''ioc''
                    (result_of (process_search cb (ioc_query a line) base (translate a))))
              (readlines text))
           @ [CloseOutput, log ([CHR 0x0A] @ ''Results saved: '' @ output_filename a)],
         Inr ())
      \<and> (\<not> (translate a \<and> is_cloud cb) \<longrightarrow>
           selects (fst (main env a)) = map (\<lambda>line. ioc_query a line @ base) (readlines text)))
   \<and> (WriteRows rows \<in> set (fst (main env a)) \<and> query a = None \<and> iocfile a = Some f \<and> f \<noteq> [] \<longrightarrow>
       (\<exists>text cb base files found line. read_text env f = Inr text
          \<and> prepare env a = ([], Inr (cb, base, files))
          \<and> line \<in> set (readlines text)
          \<and> snd (process_search cb (ioc_query a line) base (translate a)) = Inr found
          \<and> rows = row (strip line) ''ioc'' ` found
          \<and> (\<forall>r \<in> rows. length r = 6 \<and> r ! 4 = strip line \<and> r ! 5 = ''ioc'')))"
proof (intro conjI impI)
  show "ioc_query a line = str_opt (ioctype a) @ '':'' @ strip line"
    by (simp add: ioc_query_def)
next
  assume h: "prepare env a = (es0, Inr (cb, base, files))
       \<and> open_output env (output_filename a) = None
       \<and> query a = None \<and> iocfile a = Some f \<and> f \<noteq> [] \<and> read_text env f = Inr text
       \<and> (\<forall>line \<in> set (readlines text).
             returns (process_search cb (ioc_query a line) base (translate a)))"
  let ?per = "\<lambda>line. fst (process_search cb (ioc_query a line) base (translate a))
                @ log_nl (''--> '' @ strip line) []
                # report (strip line) ''ioc''
                    (result_of (process_search cb (ioc_query a line) base (translate a)))"
  have es0: "es0 = []" using h prepare_returns by blast
  have loop: "ioc_loop cb a base (readlines text) = (concat (map ?per (readlines text)), Inr ())"
    by (rule ioc_loop_returns) (use h in blast)
  have survey: "survey env cb a base files =
      (log (''Processing IOC file: '' @ f) # concat (map ?per (readlines text)), Inr ())"
    using h loop by (simp add: survey_def run_iocfile_def truthy_def bind_def emit_def)
  show main: "main env a =
      ([OpenOutput (output_filename a), WriteRow header, log (''Processing IOC file: '' @ f)]
         @ concat (map ?per (readlines text))
         @ [CloseOutput, log ([CHR 0x0A] @ ''Results saved: '' @ output_filename a)], Inr ())"
    using main_prepared [of env a es0 cb base files] h survey es0 by simp
  assume plain: "\<not> (translate a \<and> is_cloud cb)"
  have sel: "selects (concat (map ?per lines)) = map (\<lambda>line. ioc_query a line @ base) lines" for lines
    using plain
    by (induction lines)
       (simp_all add: selects_append selects_process_search selects_log selects_report)
  show "selects (fst (main env a)) = map (\<lambda>line. ioc_query a line @ base) (readlines text)"
    using sel [of "readlines text"] by (simp add: main selects_append selects_log)
next
  assume h: "WriteRows rows \<in> set (fst (main env a)) \<and> query a = None \<and> iocfile a = Some f \<and> f \<noteq> []"
  then obtain cb base files where prep: "prepare env a = ([], Inr (cb, base, files))"
    and w: "WriteRows rows \<in> set (fst (survey env cb a base files))"
    using main_rows [of rows env a] by blast
  have w': "WriteRows rows \<in> set (fst (run_iocfile env cb a base))"
    using w h by (simp add: survey_def truthy_def)
  then obtain body where body: "read_text env f = Inr body"
    using h by (cases "read_text env f") (simp_all add: run_iocfile_def)
  have "WriteRows rows \<in> set (fst (ioc_loop cb a base (readlines body)))"
    using w' h body by (simp add: run_iocfile_def fst_bind emit_def log_def log_nl_def)
  from ioc_loop_rows [OF this] obtain line found where
    l: "line \<in> set (readlines body)"
    "snd (process_search cb (ioc_query a line) base (translate a)) = Inr found"
    "rows = row (strip line) ''ioc'' ` found"
    by blast
  have "\<forall>r \<in> rows. length r = 6 \<and> r ! 4 = strip line \<and> r ! 5 = ''ioc''"
    using l(3) row_columns by blast
  then show "\<exists>text cb base files found line. read_text env f = Inr text
          \<and> prepare env a = ([], Inr (cb, base, files))
          \<and> line \<in> set (readlines text)
          \<and> snd (process_search cb (ioc_query a line) base (translate a)) = Inr found
          \<and> rows = row (strip line) ''ioc'' ` found
          \<and> (\<forall>r \<in> rows. length r = 6 \<and> r ! 4 = strip line \<and> r ! 5 = ''ioc'')"
    using body prep l by blast
qed


theorem every_line_is_queried_witness:
  "ioc_query args_ioc ('' 1.2.3.4'' @ [CHR 0x0A]) = ''ipaddr:1.2.3.4''
   \<and> prepare env_ioc args_ioc = ([], Inr (CbEnterpriseResponseAPI (\<lambda>q. ([], None)), [], []))
   \<and> open_output env_ioc (output_filename args_ioc) = None
   \<and> query args_ioc = None \<and> iocfile args_ioc = Some ''iocs.txt''
   \<and> read_text env_ioc ''iocs.txt'' = Inr ioc_text
   \<and> readlines ioc_text = [''1.2.3.4'' @ [CHR 0x0A], [CHR 0x0A], ''5.6.7.8'']
   \<and> returns (process_search (CbEnterpriseResponseAPI (\<lambda>q. ([], None)))
        (ioc_query args_ioc (''1.2.3.4'' @ [CHR 0x0A])) [] (translate args_ioc))
   \<and> returns (process_search (CbEnterpriseResponseAPI (\<lambda>q. ([], None)))
        (ioc_query args_ioc [CHR 0x0A]) [] (translate args_ioc))
   \<and> returns (process_search (CbEnterpriseResponseAPI (\<lambda>q. ([], None)))
        (ioc_query args_ioc ''5.6.7.8'') [] (translate args_ioc))
   \<and> snd (main env_ioc args_ioc) = Inr ()
   \<and> selects (fst (main env_ioc args_ioc)) = [''ipaddr:1.2.3.4'', ''ipaddr:'', ''ipaddr:5.6.7.8'']
   \<and> WriteRows {[''ws-01'', ''alice'', ''c:/windows/cmd.exe'', ''cmd.exe /c dir'', ''1.2.3.4'', ''ioc'']}
       \<in> set (fst (main env_interrupted_once args_ioc))
   \<and> read_text env_interrupted_once ''iocs.txt'' = Inr (''1.2.3.4'' @ [CHR 0x0A] @ ''5.6.7.8'' @ [CHR 0x0A])
   \<and> strip (''1.2.3.4'' @ [CHR 0x0A]) = ''1.2.3.4''
   \<and> [''ws-01'', ''alice'', ''c:/windows/cmd.exe'', ''cmd.exe /c dir'', ''1.2.3.4'', ''ioc''] ! 4 = ''1.2.3.4''
   \<and> [''ws-01'', ''alice'', ''c:/windows/cmd.exe'', ''cmd.exe /c dir'', ''1.2.3.4'', ''ioc''] ! 5 = ''ioc''"
proof -
  have ex:
    "\<And>l. ioc_query args_ioc l = ''ipaddr:'' @ strip l"
    "translate args_ioc = False" "query args_ioc = None" "iocfile args_ioc = Some ''iocs.txt''"
    "output_filename args_ioc = ''survey.csv''"
    "\<And>f. open_output env_ioc f = None"
    "\<And>p. read_text env_ioc p = Inr ioc_text"
    "\<And>p. read_text env_interrupted_once p = Inr (''1.2.3.4'' @ [CHR 0x0A] @ ''5.6.7.8'' @ [CHR 0x0A])"
    "readlines ioc_text = [''1.2.3.4'' @ [CHR 0x0A], [CHR 0x0A], ''5.6.7.8'']"
    by (simp_all add: example_defs string_defs ioc_query_def output_filename_def readlines_def)
  show ?thesis
    using every_line_is_queried [of args_ioc "'' 1.2.3.4'' @ [CHR 0x0A]" env_ioc "[]"
        "CbEnterpriseResponseAPI (\<lambda>q. ([], None))" "[]" "[]" "''iocs.txt''" ioc_text "{}"]
      every_line_is_queried [of args_ioc "'' 1.2.3.4'' @ [CHR 0x0A]" env_interrupted_once "[]"
        "CbEnterpriseResponseAPI select_interrupted_once" "[]" "[]" "''iocs.txt''"
        "''1.2.3.4'' @ [CHR 0x0A] @ ''5.6.7.8'' @ [CHR 0x0A]"
        "{[''ws-01'', ''alice'', ''c:/windows/cmd.exe'', ''cmd.exe /c dir'', ''1.2.3.4'', ''ioc'']}"]
    by (simp add: ex blank_line_run interrupted_once_run returns_def process_search_def collect_def
        strip_def is_space_def)
qed

section \<open>Program and source of a row\<close>

lemma basename_plain: "CHR ''/'' \<notin> set name \<Longrightarrow> basename name = name"
proof -
  assume "CHR ''/'' \<notin> set name"
  then have "takeWhile (\<lambda>c. c \<noteq> CHR ''/'') (rev name) = rev name"
    by (subst takeWhile_eq_all_conv) auto
  then show ?thesis by (simp only: basename_def rev_rev_ident)
qed

lemma basename_in_dir: "CHR ''/'' \<notin> set name \<Longrightarrow> basename (dir @ ''/'' @ name) = name"
proof -
  assume n: "CHR ''/'' \<notin> set name"
  have "takeWhile (\<lambda>c. c \<noteq> CHR ''/'') (rev name @ CHR ''/'' # rev dir) = rev name"
    using n by (subst takeWhile_append2) auto
  then show ?thesis by (simp add: basename_def)
qed

lemma splitext_plain:
  assumes "CHR ''/'' \<notin> set name" "CHR ''.'' \<notin> set name" "name \<noteq> []"
    "CHR ''/'' \<notin> set ext" "CHR ''.'' \<notin> set ext"
  shows "splitext (name @ ''.'' @ ext) = (name, ''.'' @ ext)"
proof -
  have b: "basename (name @ ''.'' @ ext) = name @ ''.'' @ ext"
    using assms by (simp add: basename_plain)
  have "takeWhile (\<lambda>c. c \<noteq> CHR ''.'') (rev ext @ CHR ''.'' # rev name) = rev ext"
    using assms by (subst takeWhile_append2) auto
  then have e: "rev (takeWhile (\<lambda>c. c \<noteq> CHR ''.'') (rev (name @ ''.'' @ ext))) = ext"
    by simp
  have l: "list_ex (\<lambda>c. c \<noteq> CHR ''.'') name"
    using assms by (cases name) (auto simp: list_ex_iff)
  show ?thesis
    unfolding splitext_def b Let_def e using l by simp
qed

text \<open>
  C8. Every set of rows written in definition-file or definition-directory mode, in any
  run, belongs to one program of one definition file: it is the result set of
  \<open>nested_process_search\<close> for the criteria of that program, each row with the program's key
  in the program column and the source label of the file in the source column. The label
  depends on the file alone, so the programs of one file share it; it is the base name of
  the file with the extension stripped (\<open>dir/name.ext\<close> gives \<open>name\<close>). With \<open>--deffile\<close>
  the only definition file is the path given. In single-query mode every row has the
  query in the program column and \<open>query\<close> in the source column.
\<close>

theorem rows_carry_program_and_source:
  "(WriteRows rows \<in> set (fst (main env a)) \<and> \<not> truthy (query a) \<and> \<not> truthy (iocfile a) \<longrightarrow>
      (\<exists>cb base files definition_file programs program criteria found.
          prepare env a = ([], Inr (cb, base, files)) \<and> definition_file \<in> set files
          \<and> load_json env definition_file = Inr programs \<and> (program, criteria) \<in> set programs
          \<and> snd (nested_process_search cb criteria base (translate a)) = Inr found
          \<and> rows = row program (source_label definition_file) ` found
          \<and> (\<forall>r \<in> rows. length r = 6 \<and> r ! 4 = program \<and> r ! 5 = source_label definition_file)))
   \<and> (WriteRows rows \<in> set (fst (main env a)) \<and> query a = Some q \<and> q \<noteq> [] \<longrightarrow>
      (\<exists>cb base files found.
          prepare env a = ([], Inr (cb, base, files))
          \<and> snd (process_search cb q base (translate a)) = Inr found
          \<and> rows = row q ''query'' ` found
          \<and> (\<forall>r \<in> rows. length r = 6 \<and> r ! 4 = q \<and> r ! 5 = ''query'')))
   \<and> source_label definition_file = fst (splitext (basename definition_file))
   \<and> (CHR ''/'' \<notin> set name \<and> CHR ''.'' \<notin> set name \<and> name \<noteq> []
       \<and> CHR ''/'' \<notin> set ext \<and> CHR ''.'' \<notin> set ext \<longrightarrow>
      source_label (dir @ ''/'' @ name @ ''.'' @ ext) = name
      \<and> source_label (name @ ''.'' @ ext) = name)
   \<and> (deffile a = Some p \<and> p \<noteq> [] \<and> path_exists env p \<longrightarrow>
      definition_files env a = ([], Inr [p]))"
proof (intro conjI impI)
  assume h: "WriteRows rows \<in> set (fst (main env a)) \<and> \<not> truthy (query a) \<and> \<not> truthy (iocfile a)"
  then obtain cb base files where prep: "prepare env a = ([], Inr (cb, base, files))"
    and w: "WriteRows rows \<in> set (fst (survey env cb a base files))"
    using main_rows [of rows env a] by blast
  have "WriteRows rows \<in> set (fst (files_loop env cb a base files))"
    using w h by (simp add: survey_def)
  from files_loop_rows [OF this] obtain definition_file programs program criteria found where
    l: "definition_file \<in> set files" "load_json env definition_file = Inr programs"
    "(program, criteria) \<in> set programs"
    "snd (nested_process_search cb criteria base (translate a)) = Inr found"
    "rows = row program (source_label definition_file) ` found"
    by blast
  have "\<forall>r \<in> rows. length r = 6 \<and> r ! 4 = program \<and> r ! 5 = source_label definition_file"
    using l(5) row_columns by blast
  then show "\<exists>cb base files definition_file programs program criteria found.
          prepare env a = ([], Inr (cb, base, files)) \<and> definition_file \<in> set files
          \<and> load_json env definition_file = Inr programs \<and> (program, criteria) \<in> set programs
          \<and> snd (nested_process_search cb criteria base (translate a)) = Inr found
          \<and> rows = row program (source_label definition_file) ` found
          \<and> (\<forall>r \<in> rows. length r = 6 \<and> r ! 4 = program \<and> r ! 5 = source_label definition_file)"
    using prep l by blast
next
  assume h: "WriteRows rows \<in> set (fst (main env a)) \<and> query a = Some q \<and> q \<noteq> []"
  then obtain cb base files where prep: "prepare env a = ([], Inr (cb, base, files))"
    and w: "WriteRows rows \<in> set (fst (survey env cb a base files))"
    using main_rows [of rows env a] by blast
  have "WriteRows rows \<in> set (fst (run_query cb a base))"
    using w h by (simp add: survey_def truthy_def)
  from run_query_rows [OF this] obtain found where
    l: "snd (process_search cb q base (translate a)) = Inr found" "rows = row q ''query'' ` found"
    using h by auto
  have "\<forall>r \<in> rows. length r = 6 \<and> r ! 4 = q \<and> r ! 5 = ''query''"
    using l(2) row_columns by blast
  then show "\<exists>cb base files found.
          prepare env a = ([], Inr (cb, base, files))
          \<and> snd (process_search cb q base (translate a)) = Inr found
          \<and> rows = row q ''query'' ` found
          \<and> (\<forall>r \<in> rows. length r = 6 \<and> r ! 4 = q \<and> r ! 5 = ''query'')"
    using prep l by blast
next
  show "source_label definition_file = fst (splitext (basename definition_file))"
    by (simp add: source_label_def)
next
  assume n: "CHR ''/'' \<notin> set name \<and> CHR ''.'' \<notin> set name \<and> name \<noteq> []
       \<and> CHR ''/'' \<notin> set ext \<and> CHR ''.'' \<notin> set ext"
  then have sp: "splitext (name @ ''.'' @ ext) = (name, ''.'' @ ext)"
    using splitext_plain [of name ext] by blast
  have "basename (dir @ ''/'' @ (name @ ''.'' @ ext)) = name @ ''.'' @ ext"
    by (rule basename_in_dir) (use n in simp)
  then show "source_label (dir @ ''/'' @ name @ ''.'' @ ext) = name"
    using sp by (simp add: source_label_def)
  have "basename (name @ ''.'' @ ext) = name @ ''.'' @ ext"
    by (rule basename_plain) (use n in simp)
  then show "source_label (name @ ''.'' @ ext) = name"
    using sp by (simp add: source_label_def)
next
  assume "deffile a = Some p \<and> p \<noteq> [] \<and> path_exists env p"
  then show "definition_files env a = ([], Inr [p])"
    by (simp add: definition_files_def truthy_def)
qed

theorem rows_carry_program_and_source_witness:
  "WriteRows {[''ws-01'', ''alice'', ''c:/windows/cmd.exe'', ''cmd.exe /c dir'', ''chrome'', ''browsers'']}
     \<in> set (fst (main env_browsers (no_args\<lparr>deffile := Some ''defs/browsers.json''\<rparr>)))
   \<and> \<not> truthy (query (no_args\<lparr>deffile := Some ''defs/browsers.json''\<rparr>))
   \<and> \<not> truthy (iocfile (no_args\<lparr>deffile := Some ''defs/browsers.json''\<rparr>))
   \<and> prepare env_browsers (no_args\<lparr>deffile := Some ''defs/browsers.json''\<rparr>) =
       ([], Inr (CbEnterpriseResponseAPI select_two, [], [''defs/browsers.json'']))
   \<and> load_json env_browsers ''defs/browsers.json'' = Inr [(''chrome'', [(''process_name'', [''chrome.exe''])])]
   \<and> source_label ''defs/browsers.json'' = ''browsers''
   \<and> source_label ''browsers.json'' = ''browsers''
   \<and> CHR ''/'' \<notin> set ''browsers'' \<and> CHR ''.'' \<notin> set ''browsers'' \<and> ''browsers'' \<noteq> []
   \<and> CHR ''/'' \<notin> set ''json'' \<and> CHR ''.'' \<notin> set ''json''
   \<and> path_exists env_browsers ''defs/browsers.json''
   \<and> definition_files env_browsers (no_args\<lparr>deffile := Some ''defs/browsers.json''\<rparr>) =
       ([], Inr [''defs/browsers.json''])
   \<and> WriteRows {[''ws-01'', ''alice'', ''c:/windows/cmd.exe'', ''cmd.exe /c dir'',
                  ''process_name:cmd.exe'', ''query'']}
       \<in> set (fst (main env_two (no_args\<lparr>query := Some ''process_name:cmd.exe''\<rparr>)))
   \<and> row ''process_name:cmd.exe'' ''query'' (''ws-01'', ''alice'', ''c:/windows/cmd.exe'', ''cmd.exe /c dir'') ! 5
       = ''query''"
proof -
  have ex:
    "\<And>p. load_json env_browsers p = Inr [(''chrome'', [(''process_name'', [''chrome.exe''])])]"
    "\<And>p. path_exists env_browsers p = True"
    by (simp_all add: example_defs)
  show ?thesis
    using rows_carry_program_and_source [of
        "{[''ws-01'', ''alice'', ''c:/windows/cmd.exe'', ''cmd.exe /c dir'', ''chrome'', ''browsers'']}"
        env_browsers "no_args\<lparr>deffile := Some ''defs/browsers.json''\<rparr>" "''q''"
        "''defs/browsers.json''" "''browsers''" "''json''" "''defs''" "''defs/browsers.json''"]
      rows_carry_program_and_source [of
        "{[''ws-01'', ''alice'', ''c:/windows/cmd.exe'', ''cmd.exe /c dir'', ''process_name:cmd.exe'', ''query'']}"
        env_two "no_args\<lparr>query := Some ''process_name:cmd.exe''\<rparr>" "''process_name:cmd.exe''"
        "''defs/browsers.json''" "''browsers''" "''json''" "''defs''" "''defs/browsers.json''"]
    by (simp add: ex browsers_run query_run no_args_simps truthy_def row_def)
qed

section \<open>The output file\<close>

lemma survey_output:
  "list_all survey_event es \<Longrightarrow>
   list_all is_rows (filter output_event es) \<and> CloseOutput \<notin> set es"
  by (induction es) (auto elim: survey_event.elims)

text \<open>
  C9, as the claim states it, fails: nothing closes the output file when an exception
  ends the run. With a backend whose search raises, a single-query run opens the file
  and ends with the exception, and no close has taken place.
\<close>

theorem output_file_left_open_on_exception:
  "snd (main env_failing (no_args\<lparr>query := Some ''process_name:cmd.exe''\<rparr>)) =
     Inl (Raised (OtherError ''ApiError''))
   \<and> filter output_event (fst (main env_failing (no_args\<lparr>query := Some ''process_name:cmd.exe''\<rparr>))) =
       [OpenOutput ''survey.csv'', WriteRow header]
   \<and> CloseOutput \<notin> set (fst (main env_failing (no_args\<lparr>query := Some ''process_name:cmd.exe''\<rparr>)))"
  by (simp add: main_defs example_defs string_defs search_defs)

text \<open>
  C9, amended. In every run in which \<open>main\<close> returns, the output file is opened exactly
  once, after the validation, the header is written, then only rows, and the file is
  closed exactly once, as the last operation on it. A run that ends through a validation
  exit never opens the file. A run that an exception ends never closes the file: either
  the file was not opened yet, or it was opened once and is left open.
\<close>

theorem output_file_closed_when_main_returns:
  "(snd (main env a) = Inr () \<longrightarrow>
      (\<exists>rows. filter output_event (fst (main env a)) =
                 OpenOutput (output_filename a) # WriteRow header # rows @ [CloseOutput]
               \<and> list_all is_rows rows))
   \<and> ((\<exists>n. snd (main env a) = Inl (SystemExit n)) \<longrightarrow> filter output_event (fst (main env a)) = [])
   \<and> (snd (main env a) = Inl (Raised e) \<longrightarrow>
      CloseOutput \<notin> set (fst (main env a))
      \<and> (filter output_event (fst (main env a)) = []
          \<or> (\<exists>rows. filter output_event (fst (main env a)) =
                       OpenOutput (output_filename a) # WriteRow header # rows
                     \<and> list_all is_rows rows)))"
proof -
  from prepare_cases [of env a]
  consider es s where "prepare env a = (es, Inl s)" "es = [] \<or> (\<exists>msg. es = [Err msg])"
    | x where "prepare env a = ([], Inr x)"
    by (metis sum.exhaust)
  then show ?thesis
  proof cases
    case 1
    then show ?thesis using main_stopped [OF 1(1)] by auto
  next
    case 2
    obtain cb base files where x: "x = (cb, base, files)" by (cases x)
    have prep: "prepare env a = ([], Inr (cb, base, files))" using 2 x by simp
    show ?thesis
    proof (cases "open_output env (output_filename a)")
      case (Some e')
      then show ?thesis using main_open_failed [OF prep Some] by simp
    next
      case None
      note m = main_prepared [OF prep None]
      have sv: "list_all is_rows (filter output_event (fst (survey env cb a base files)))"
        "CloseOutput \<notin> set (fst (survey env cb a base files))"
        using survey_output [OF survey_events [of env cb a base files]] by simp_all
      show ?thesis
      proof (cases "snd (survey env cb a base files)")
        case (Inr u)
        then show ?thesis using m sv by (simp add: log_def log_nl_def)
      next
        case (Inl s)
        then show ?thesis
          using m sv survey_no_exit [of env cb a base files]
          by (simp add: log_def log_nl_def no_exit_def)
      qed
    qed
  qed
qed

theorem output_file_closed_when_main_returns_witness:
  "snd (main env_two (no_args\<lparr>query := Some ''process_name:cmd.exe''\<rparr>)) = Inr ()
   \<and> filter output_event (fst (main env_two (no_args\<lparr>query := Some ''process_name:cmd.exe''\<rparr>))) =
       [OpenOutput ''survey.csv'', WriteRow header,
        WriteRows {[''ws-01'', ''alice'', ''c:/windows/cmd.exe'', ''cmd.exe /c dir'',
                    ''process_name:cmd.exe'', ''query'']},
        CloseOutput]
   \<and> snd (main env_no_paths (no_args\<lparr>deffile := Some ''defs/browsers.json''\<rparr>)) = Inl (SystemExit 1)
   \<and> filter output_event (fst (main env_no_paths (no_args\<lparr>deffile := Some ''defs/browsers.json''\<rparr>))) = []
   \<and> snd (main env_failing (no_args\<lparr>query := Some ''process_name:cmd.exe''\<rparr>)) =
       Inl (Raised (OtherError ''ApiError''))
   \<and> CloseOutput \<notin> set (fst (main env_failing (no_args\<lparr>query := Some ''process_name:cmd.exe''\<rparr>)))"
proof -
  have runs:
    "main env_no_paths (no_args\<lparr>deffile := Some ''defs/browsers.json''\<rparr>) =
       ([Err ''ERROR: deffile does not exist''], Inl (SystemExit 1))"
    "main env_failing (no_args\<lparr>query := Some ''process_name:cmd.exe''\<rparr>) =
       ([OpenOutput ''survey.csv'', WriteRow header, log_nl ''Processing query'' [],
         Select ''process_name:cmd.exe''], Inl (Raised (OtherError ''ApiError'')))"
    by (simp_all add: main_defs example_defs string_defs search_defs)
  show ?thesis
    using output_file_closed_when_main_returns [of env_two
        "no_args\<lparr>query := Some ''process_name:cmd.exe''\<rparr>" "OtherError ''ApiError''"]
      output_file_closed_when_main_returns [of env_no_paths
        "no_args\<lparr>deffile := Some ''defs/browsers.json''\<rparr>" "OtherError ''ApiError''"]
      output_file_closed_when_main_returns [of env_failing
        "no_args\<lparr>query := Some ''process_name:cmd.exe''\<rparr>" "OtherError ''ApiError''"]
    by (simp add: runs query_run log_def log_nl_def)
qed

section \<open>The conflict check of the filters\<close>










end
